theory Spec2Isabelle
  imports Complex_Main
begin

section \<open>Python values, errors and dictionaries\<close>

text \<open>
  The module \<^verbatim>\<open>soloact/data/make_dataset.py\<close> works on values read from a YAML
  configuration and on dictionaries of labels.  Scalars and lists are \<open>pyval\<close>; a
  \<open>pyobj\<close> is either such a value or a dictionary with string keys (what
  \<^verbatim>\<open>isinstance(v, dict)\<close> tests).  Floats are idealised as reals.  A dictionary is
  the list of its items in insertion order, as Python iterates it.
\<close>

datatype pyval =
    PyNone
  | PyBool bool
  | PyInt int
  | PyFloat real
  | PyStr string
  | PyList "pyval list"
  | PyObj string

datatype pyobj =
    Val pyval
  | Dict "(string \<times> pyobj) list"

type_synonym pydict = "(string \<times> pyobj) list"

datatype error =
    AssertionError
  | TypeError
  | ValueError
  | AttributeError
  | IndexError
  | NameError
  | EOFError
  | SystemExit string
  | LibraryError string

text \<open>\<^verbatim>\<open>d.get(k)\<close>: the value stored under \<open>k\<close>, Python's \<open>None\<close> when absent.\<close>

definition dict_get :: "pydict \<Rightarrow> string \<Rightarrow> pyobj" where
  "dict_get d k = (case map_of d k of None \<Rightarrow> Val PyNone | Some v \<Rightarrow> v)"

text \<open>\<^verbatim>\<open>d[k] = v\<close>: an existing key keeps its position, a new key goes last.\<close>

fun dict_set :: "('k \<times> 'v) list \<Rightarrow> 'k \<Rightarrow> 'v \<Rightarrow> ('k \<times> 'v) list" where
  "dict_set [] k v = [(k, v)]"
| "dict_set ((k', v') # d) k v =
     (if k' = k then (k, v) # d else (k', v') # dict_set d k v)"

text \<open>\<^verbatim>\<open>{**d, **e}\<close>: the items of \<open>e\<close> stored into \<open>d\<close> one after the other.\<close>

fun dict_update :: "('k \<times> 'v) list \<Rightarrow> ('k \<times> 'v) list \<Rightarrow> ('k \<times> 'v) list" where
  "dict_update d [] = d"
| "dict_update d ((k, v) # e) = dict_update (dict_set d k v) e"

section \<open>flatten\<close>

text \<open>
  \<^verbatim>\<open>
  def flatten(x, par = '', sep ='.'):
      store = {}
      for k,v in x.items():
          if isinstance(v,dict):
              store = {**store, **flatten(v, par =  par + sep + k if par else k)}
          else:
              store[par + sep + k] = v
      return store
  \<close>
  \<open>flatten_loop\<close> is the loop with \<open>store\<close> as accumulator.  The conditional
  expression binds weaker than \<open>+\<close>: the parent of a nested dictionary is \<open>k\<close> when
  \<open>par\<close> is empty.  The recursive call passes no \<open>sep\<close>, so below the root the separator
  is the default \<open>'.'\<close>.  The leaf branch joins \<open>par\<close>, \<open>sep\<close> and \<open>k\<close> without that test.
\<close>

fun flatten_loop :: "pydict \<Rightarrow> string \<Rightarrow> string \<Rightarrow> pydict \<Rightarrow> pydict" where
  "flatten_loop [] par sep store = store"
| "flatten_loop ((k, Dict d) # x) par sep store =
     flatten_loop x par sep
       (dict_update store
          (flatten_loop d (if par \<noteq> [] then par @ sep @ k else k) ''.'' []))"
| "flatten_loop ((k, Val v) # x) par sep store =
     flatten_loop x par sep (dict_set store (par @ sep @ k) (Val v))"

definition flatten :: "pydict \<Rightarrow> string \<Rightarrow> string \<Rightarrow> pydict" where
  "flatten x par sep = flatten_loop x par sep []"

section \<open>Comparison of Python values\<close>

text \<open>
  \<open>bool\<close>, \<open>int\<close> and \<open>float\<close> compare with each other as numbers; two strings and two
  lists compare lexicographically; every other pair raises \<open>TypeError\<close> under \<open><\<close>
  and \<open>>\<close>, and is unequal under \<open>==\<close>.
\<close>

fun py_num :: "pyval \<Rightarrow> real option" where
  "py_num (PyBool b) = Some (if b then 1 else 0)"
| "py_num (PyInt i) = Some (real_of_int i)"
| "py_num (PyFloat r) = Some r"
| "py_num v = None"

fun str_lt :: "string \<Rightarrow> string \<Rightarrow> bool" where
  "str_lt [] [] = False"
| "str_lt [] (y # ys) = True"
| "str_lt (x # xs) [] = False"
| "str_lt (x # xs) (y # ys) =
     ((of_char x :: nat) < of_char y \<or> (x = y \<and> str_lt xs ys))"

fun py_eq :: "pyval \<Rightarrow> pyval \<Rightarrow> bool"
  and py_eq_list :: "pyval list \<Rightarrow> pyval list \<Rightarrow> bool" where
  "py_eq (PyList xs) (PyList ys) = py_eq_list xs ys"
| "py_eq (PyStr s) (PyStr t) = (s = t)"
| "py_eq PyNone PyNone = True"
| "py_eq (PyObj a) (PyObj b) = (a = b)"
| "py_eq a b =
     (case (py_num a, py_num b) of (Some x, Some y) \<Rightarrow> x = y | _ \<Rightarrow> False)"
| "py_eq_list [] [] = True"
| "py_eq_list (x # xs) (y # ys) = (py_eq x y \<and> py_eq_list xs ys)"
| "py_eq_list xs ys = False"

fun py_lt :: "pyval \<Rightarrow> pyval \<Rightarrow> error + bool"
  and py_lt_list :: "pyval list \<Rightarrow> pyval list \<Rightarrow> error + bool" where
  "py_lt (PyList xs) (PyList ys) = py_lt_list xs ys"
| "py_lt (PyStr s) (PyStr t) = Inr (str_lt s t)"
| "py_lt a b =
     (case (py_num a, py_num b) of
        (Some x, Some y) \<Rightarrow> Inr (x < y)
      | _ \<Rightarrow> Inl TypeError)"
| "py_lt_list [] [] = Inr False"
| "py_lt_list [] (y # ys) = Inr True"
| "py_lt_list (x # xs) [] = Inr False"
| "py_lt_list (x # xs) (y # ys) =
     (if py_eq x y then py_lt_list xs ys else py_lt x y)"

text \<open>\<^verbatim>\<open>a > b\<close> on these types is \<^verbatim>\<open>b < a\<close>.\<close>

definition py_gt :: "pyval \<Rightarrow> pyval \<Rightarrow> error + bool" where
  "py_gt a b = py_lt b a"

text \<open>A dictionary on either side of \<open>>\<close> raises \<open>TypeError\<close>.\<close>

fun obj_gt :: "pyobj \<Rightarrow> pyobj \<Rightarrow> error + bool" where
  "obj_gt (Val a) (Val b) = py_gt a b"
| "obj_gt a b = Inl TypeError"

section \<open>The random module\<close>

text \<open>
  \<^verbatim>\<open>random.seed(666)\<close> seeds one hidden generator at import; every draw reads and
  advances its state.  The state is passed explicitly.  The generator itself is a
  parameter, given by the two primitives on which the functions called from this module
  are built in CPython: \<^verbatim>\<open>random()\<close>, a float in \<open>[0, 1)\<close>, and \<^verbatim>\<open>_randbelow(n)\<close>,
  an integer in \<open>[0, n)\<close>.
\<close>

record 'g rng =
  rng_random :: "'g \<Rightarrow> real \<times> 'g"
  rng_randbelow :: "nat \<Rightarrow> 'g \<Rightarrow> nat \<times> 'g"

definition rng_ok :: "'g rng \<Rightarrow> bool" where
  "rng_ok R \<longleftrightarrow>
     (\<forall>g. 0 \<le> fst (rng_random R g) \<and> fst (rng_random R g) < 1) \<and>
     (\<forall>n g. 0 < n \<longrightarrow> fst (rng_randbelow R n g) < n)"

text \<open>\<^verbatim>\<open>random.uniform(a, b)\<close> is \<^verbatim>\<open>a + (b-a) * self.random()\<close>; \<open>b - a\<close> raises
  \<open>TypeError\<close> on operands that are not numbers, before anything is drawn.\<close>

definition random_uniform :: "'g rng \<Rightarrow> pyval \<Rightarrow> pyval \<Rightarrow> 'g \<Rightarrow> (error + pyval) \<times> 'g" where
  "random_uniform R a b g =
     (case (py_num a, py_num b) of
        (Some x, Some y) \<Rightarrow>
          (case rng_random R g of (u, g') \<Rightarrow> (Inr (PyFloat (x + (y - x) * u)), g'))
      | _ \<Rightarrow> (Inl TypeError, g))"

text \<open>
  \<^verbatim>\<open>random.randint(a, b)\<close> is \<^verbatim>\<open>self.randrange(a, b+1)\<close>, and
  \<^verbatim>\<open>
  istart = int(start)
  if istart != start: raise ValueError("non-integer arg 1 for randrange()")
  istop = int(stop)
  if istop != stop: raise ValueError("non-integer stop for randrange()")
  width = istop - istart
  if step == 1 and width > 0: return istart + self._randbelow(width)
  if step == 1: raise ValueError("empty range for randrange() ...")
  \<close>
  \<open>int_arg\<close> is \<open>int(v)\<close> together with the test that follows it.
\<close>

fun int_arg :: "pyval \<Rightarrow> error + int" where
  "int_arg (PyInt i) = Inr i"
| "int_arg (PyBool b) = Inr (if b then 1 else 0)"
| "int_arg (PyFloat r) = (if r = of_int \<lfloor>r\<rfloor> then Inr \<lfloor>r\<rfloor> else Inl ValueError)"
| "int_arg (PyStr s) = Inl ValueError"
| "int_arg v = Inl TypeError"

fun py_add1 :: "pyval \<Rightarrow> error + pyval" where
  "py_add1 (PyInt i) = Inr (PyInt (i + 1))"
| "py_add1 (PyBool b) = Inr (PyInt ((if b then 1 else 0) + 1))"
| "py_add1 (PyFloat r) = Inr (PyFloat (r + 1))"
| "py_add1 v = Inl TypeError"

definition randrange :: "'g rng \<Rightarrow> pyval \<Rightarrow> pyval \<Rightarrow> 'g \<Rightarrow> (error + pyval) \<times> 'g" where
  "randrange R start stop g =
     (case int_arg start of
        Inl e \<Rightarrow> (Inl e, g)
      | Inr istart \<Rightarrow>
          (case int_arg stop of
             Inl e \<Rightarrow> (Inl e, g)
           | Inr istop \<Rightarrow>
               (if istop - istart > 0
                then (case rng_randbelow R (nat (istop - istart)) g of
                        (k, g') \<Rightarrow> (Inr (PyInt (istart + int k)), g'))
                else (Inl ValueError, g))))"

definition random_randint :: "'g rng \<Rightarrow> pyval \<Rightarrow> pyval \<Rightarrow> 'g \<Rightarrow> (error + pyval) \<times> 'g" where
  "random_randint R a b g =
     (case py_add1 b of
        Inl e \<Rightarrow> (Inl e, g)
      | Inr stop \<Rightarrow> randrange R a stop g)"

text \<open>\<^verbatim>\<open>random.choice(seq)\<close> is \<^verbatim>\<open>seq[self._randbelow(len(seq))]\<close>; in the two-element
  list \<^verbatim>\<open>[True, False]\<close> index 0 is \<open>True\<close> and index 1, the only other value of
  \<^verbatim>\<open>_randbelow(2)\<close>, is \<open>False\<close>.\<close>

definition choice_True_False :: "'g rng \<Rightarrow> 'g \<Rightarrow> bool \<times> 'g" where
  "choice_True_False R g = (case rng_randbelow R 2 g of (k, g') \<Rightarrow> (k = 0, g'))"

text \<open>A small deterministic generator on which the definitions can be run: the state
  is a counter, \<open>random()\<close> is always \<open>1/2\<close>, and \<open>_randbelow(n)\<close> is the counter modulo
  \<open>n\<close>.\<close>

definition counter_rng :: "nat rng" where
  "counter_rng = \<lparr> rng_random = (\<lambda>g. (1/2, Suc g)), rng_randbelow = (\<lambda>n g. (g mod n, Suc g)) \<rparr>"

section \<open>rand\<close>

text \<open>
  \<^verbatim>\<open>
  def rand(x,y):
      if all([v < 1 for v in [x,y]]):
          return random.uniform(x, y)
      else:
          return random.randint(x,y)
  \<close>
  The list comprehension evaluates both comparisons before \<open>all\<close> looks at them.
\<close>

definition rand :: "'g rng \<Rightarrow> pyval \<Rightarrow> pyval \<Rightarrow> 'g \<Rightarrow> (error + pyval) \<times> 'g" where
  "rand R x y g =
     (case py_lt x (PyInt 1) of
        Inl e \<Rightarrow> (Inl e, g)
      | Inr bx \<Rightarrow>
          (case py_lt y (PyInt 1) of
             Inl e \<Rightarrow> (Inl e, g)
           | Inr by \<Rightarrow>
               (if bx \<and> by then random_uniform R x y g else random_randint R x y g)))"

section \<open>Arrays\<close>

text \<open>
  A 2-D numpy array: its \<^verbatim>\<open>shape\<close> and its cells by rows.  The shape is kept apart from
  the cells since an array with no rows still has a column count.  A 1-D array is the
  list of its entries, and the 3-D array that \<^verbatim>\<open>np.array\<close> makes of equally shaped 2-D
  arrays is the list of these slices.
\<close>

record ndarray =
  nrows :: nat
  ncols :: nat
  cells :: "real list list"

definition shape :: "ndarray \<Rightarrow> nat \<times> nat" where
  "shape a = (nrows a, ncols a)"

definition well_shaped :: "ndarray \<Rightarrow> bool" where
  "well_shaped a \<longleftrightarrow>
     length (cells a) = nrows a \<and> list_all (\<lambda>r. length r = ncols a) (cells a)"

text \<open>The cell in row \<open>i\<close> and column \<open>j\<close>.\<close>

definition cell :: "ndarray \<Rightarrow> nat \<Rightarrow> nat \<Rightarrow> real" where
  "cell a i j = cells a ! i ! j"

definition np_zeros :: "nat \<times> nat \<Rightarrow> ndarray" where
  "np_zeros s = \<lparr> nrows = fst s, ncols = snd s, cells = replicate (fst s) (replicate (snd s) 0) \<rparr>"

text \<open>
  \<^verbatim>\<open>grid[:x, :y] = inp\<close>.  The target is the view of the first \<open>min x (nrows grid)\<close> rows
  and \<open>min y (ncols grid)\<close> columns.  numpy broadcasts \<open>inp\<close> to the shape of the view: in
  each dimension the extents are equal or the extent of \<open>inp\<close> is 1; otherwise it raises
  \<open>ValueError\<close> (could not broadcast input array).
\<close>

definition setitem_topleft :: "ndarray \<Rightarrow> nat \<Rightarrow> nat \<Rightarrow> ndarray \<Rightarrow> error + ndarray" where
  "setitem_topleft grid x y inp =
     (let tx = min x (nrows grid); ty = min y (ncols grid) in
      if (nrows inp = tx \<or> nrows inp = 1) \<and> (ncols inp = ty \<or> ncols inp = 1)
      then Inr (grid \<lparr> cells :=
             map (\<lambda>i. map (\<lambda>j.
                    if i < tx \<and> j < ty
                    then cell inp (if nrows inp = 1 then 0 else i) (if ncols inp = 1 then 0 else j)
                    else cell grid i j)
                  [0..<ncols grid])
               [0..<nrows grid] \<rparr>)
      else Inl ValueError)"

text \<open>\<^verbatim>\<open>np.mean(m, axis = 0)\<close>: the mean over the rows, one entry for each column (for an
  array with at least one row; numpy gives NaN for none).\<close>

definition np_mean_axis0 :: "ndarray \<Rightarrow> real list" where
  "np_mean_axis0 m =
     map (\<lambda>j. sum_list (map (\<lambda>r. r ! j) (cells m)) / real (nrows m)) [0..<ncols m]"

text \<open>\<^verbatim>\<open>np.expand_dims(x, axis = 1)\<close> of a 1-D array of length \<open>T\<close> has shape \<open>(T, 1)\<close>.\<close>

definition expand_dims1 :: "real list \<Rightarrow> ndarray" where
  "expand_dims1 x = \<lparr> nrows = length x, ncols = 1, cells = map (\<lambda>v. [v]) x \<rparr>"

section \<open>feature_pipeline\<close>

text \<open>
  \<^verbatim>\<open>
  def feature_pipeline(arr, **kwargs):
      """ ... Returns: vector of shape (n_mfcc, ) """
      mfcc = librosa.feature.mfcc(arr, sr = 44100, n_mfcc = 26, **kwargs)
      mfcc_mean = np.mean(mfcc, axis = 0)
      return mfcc_mean
  \<close>
  \<^verbatim>\<open>librosa.feature.mfcc\<close> belongs to another library and is a parameter, applied to the
  waveform, the sampling rate and the coefficient count.  It returns an array with one
  row for each coefficient and one column for each time frame.  The module calls
  \<open>feature_pipeline\<close> without keyword arguments.
\<close>

definition feature_pipeline :: "(real list \<Rightarrow> nat \<Rightarrow> nat \<Rightarrow> ndarray) \<Rightarrow> real list \<Rightarrow> real list" where
  "feature_pipeline mfcc arr = np_mean_axis0 (mfcc arr 44100 26)"

text \<open>A stand-in with the shape librosa documents for its defaults, \<open>n_mfcc\<close> rows and
  \<open>1 + len(y) // 512\<close> columns, and all cells zero.\<close>

definition mfcc_shape_only :: "real list \<Rightarrow> nat \<Rightarrow> nat \<Rightarrow> ndarray" where
  "mfcc_shape_only y sr n_mfcc = np_zeros (n_mfcc, 1 + length y div 512)"

section \<open>pad\<close>

text \<open>
  \<^verbatim>\<open>
  def pad(l_arrays):
      max_shape = max([x.shape for x in l_arrays], key = lambda x: x[0])
      def padder(inp, max_shape):
          zero_grid = np.zeros(max_shape)
          x,y = inp.shape
          zero_grid[:x, :y] = inp
          return zero_grid
      reshapen = [padder(x, max_shape) for x in l_arrays]
      batch_x = np.array(reshapen)
      return batch_x
  \<close>
  \<open>max\<close> with a key returns the first element whose key is largest, and raises
  \<open>ValueError\<close> on an empty list.
\<close>

fun max_by_first :: "(nat \<times> nat) list \<Rightarrow> error + nat \<times> nat" where
  "max_by_first [] = Inl ValueError"
| "max_by_first (s # ss) =
     Inr (foldl (\<lambda>best t. if fst best < fst t then t else best) s ss)"

definition padder :: "ndarray \<Rightarrow> nat \<times> nat \<Rightarrow> error + ndarray" where
  "padder inp max_shape =
     (let zero_grid = np_zeros max_shape; x = nrows inp; y = ncols inp
      in setitem_topleft zero_grid x y inp)"

text \<open>A list comprehension over a function that may raise: the first error ends it.\<close>

fun map_raising :: "('a \<Rightarrow> error + 'b) \<Rightarrow> 'a list \<Rightarrow> error + 'b list" where
  "map_raising f [] = Inr []"
| "map_raising f (x # xs) =
     (case f x of
        Inl e \<Rightarrow> Inl e
      | Inr y \<Rightarrow> (case map_raising f xs of Inl e \<Rightarrow> Inl e | Inr ys \<Rightarrow> Inr (y # ys)))"

definition pad :: "ndarray list \<Rightarrow> error + ndarray list" where
  "pad l_arrays =
     (case max_by_first (map shape l_arrays) of
        Inl e \<Rightarrow> Inl e
      | Inr max_shape \<Rightarrow> map_raising (\<lambda>x. padder x max_shape) l_arrays)"

text \<open>What \<open>padder\<close> is meant to return: an array of the given shape with the input in
  the top-left corner and zero elsewhere.\<close>

definition padded :: "nat \<times> nat \<Rightarrow> ndarray \<Rightarrow> ndarray" where
  "padded s inp =
     \<lparr> nrows = fst s, ncols = snd s,
       cells = map (\<lambda>i. map (\<lambda>j. if i < nrows inp \<and> j < ncols inp then cell inp i j else 0)
                            [0..<snd s]) [0..<fst s] \<rparr>"

section \<open>Strings and paths\<close>

text \<open>Strings are byte strings; the case conversions act on the ASCII letters.\<close>

definition py_lower :: "string \<Rightarrow> string" where
  "py_lower s =
     map (\<lambda>c. if 65 \<le> (of_char c :: nat) \<and> (of_char c :: nat) \<le> 90
              then char_of ((of_char c :: nat) + 32) else c) s"

definition py_upper :: "string \<Rightarrow> string" where
  "py_upper s =
     map (\<lambda>c. if 97 \<le> (of_char c :: nat) \<and> (of_char c :: nat) \<le> 122
              then char_of ((of_char c :: nat) - 32) else c) s"

text \<open>\<^verbatim>\<open>s.split(c)\<close>: one more piece than there are separators.\<close>

fun py_split :: "char \<Rightarrow> string \<Rightarrow> string list" where
  "py_split c [] = [[]]"
| "py_split c (x # xs) =
     (if x = c then [] # py_split c xs
      else (case py_split c xs of [] \<Rightarrow> [[x]] | w # ws \<Rightarrow> (x # w) # ws))"

text \<open>\<^verbatim>\<open>xs[i]\<close>: a negative index counts from the end; out of range raises.\<close>

definition py_index :: "'a list \<Rightarrow> int \<Rightarrow> error + 'a" where
  "py_index xs i =
     (if 0 \<le> i \<and> i < int (length xs) then Inr (xs ! nat i)
      else if i < 0 \<and> - int (length xs) \<le> i then Inr (xs ! nat (int (length xs) + i))
      else Inl IndexError)"

fun starts_with :: "string \<Rightarrow> string \<Rightarrow> bool" where
  "starts_with s [] = True"
| "starts_with [] (p # ps) = False"
| "starts_with (c # s) (p # ps) = (c = p \<and> starts_with s ps)"

text \<open>\<^verbatim>\<open>p in s\<close> for strings.\<close>

fun py_contains :: "string \<Rightarrow> string \<Rightarrow> bool" where
  "py_contains [] p = (p = [])"
| "py_contains (c # s) p = (starts_with (c # s) p \<or> py_contains s p)"

text \<open>\<^verbatim>\<open>s.rstrip(chars)\<close> removes trailing characters that occur in \<open>chars\<close>.\<close>

definition py_rstrip :: "string \<Rightarrow> string \<Rightarrow> string" where
  "py_rstrip s chars = rev (dropWhile (\<lambda>c. c \<in> set chars) (rev s))"

text \<open>\<^verbatim>\<open>str(n)\<close> for an integer.\<close>

fun str_nat :: "nat \<Rightarrow> string" where
  "str_nat n =
     (if n < 10 then [char_of (48 + n)]
      else str_nat (n div 10) @ [char_of (48 + n mod 10)])"

definition str_int :: "int \<Rightarrow> string" where
  "str_int i = (if i < 0 then CHR ''-'' # str_nat (nat (- i)) else str_nat (nat i))"

text \<open>
  \<^verbatim>\<open>os.path.join(a, *p)\<close> of posixpath:
  \<^verbatim>\<open>
  for b in p:
      if b.startswith(sep): path = b
      elif not path or path.endswith(sep): path += b
      else: path += sep + b
  \<close>
\<close>

definition join2 :: "string \<Rightarrow> string \<Rightarrow> string" where
  "join2 path b =
     (if starts_with b ''/'' then b
      else if path = [] \<or> last path = CHR ''/'' then path @ b
      else path @ ''/'' @ b)"

definition os_path_join :: "string \<Rightarrow> string list \<Rightarrow> string" where
  "os_path_join a p = foldl join2 a p"

text \<open>
  \<^verbatim>\<open>os.path.dirname(p)\<close> of posixpath: everything up to the last slash, without its
  trailing slashes unless it consists of slashes only.
\<close>

definition os_path_dirname :: "string \<Rightarrow> string" where
  "os_path_dirname p =
     (let head = rev (dropWhile (\<lambda>c. c \<noteq> CHR ''/'') (rev p))
      in if head \<noteq> [] \<and> \<not> list_all (\<lambda>c. c = CHR ''/'') head
         then rev (dropWhile (\<lambda>c. c = CHR ''/'') (rev head)) else head)"

section \<open>The audio libraries and the world\<close>

text \<open>
  pysox and librosa are other libraries; what the module asks of them is a parameter:
  \<^item> \<open>fx_lookup\<close>: \<^verbatim>\<open>getattr(FX, effect)\<close> followed by the defaults that
    \<^verbatim>\<open>signature(effect_f).parameters\<close> declares, or the error either raises.  The names
    on which it succeeds are the methods of \<^verbatim>\<open>sox.Transformer()\<close>;
  \<^item> \<open>fx_call\<close>: \<^verbatim>\<open>effect_f(**used)\<close>, which may raise and may draw from the random
    module (\<open>chorus\<close> of pysox draws the delays it is not given), so it takes the state
    of the generator and returns it;
  \<^item> \<open>fx_build\<close>: \<^verbatim>\<open>FX.build(file, out)\<close> for the effects applied so far: the audio
    rendered, or the error raised;
  \<^item> \<open>librosa_load\<close>: \<^verbatim>\<open>librosa.load(path, sr = ...)\<close> of rendered audio;
  \<^item> \<open>mfcc\<close>: \<^verbatim>\<open>librosa.feature.mfcc\<close>.
\<close>

record 'g libs =
  fx_lookup :: "string \<Rightarrow> error + (string \<times> pyval) list"
  fx_call :: "string \<Rightarrow> pydict \<Rightarrow> 'g \<Rightarrow> error option \<times> 'g"
  fx_build :: "string \<Rightarrow> (string \<times> pydict) list \<Rightarrow> error + real list"
  librosa_load :: "real list \<Rightarrow> nat \<Rightarrow> real list"
  mfcc :: "real list \<Rightarrow> nat \<Rightarrow> nat \<Rightarrow> ndarray"

text \<open>The state a run reads and changes: the generator of the random module, the audio
  files written and the directories made, in order.\<close>

record 'g world =
  gen :: 'g
  files_written :: "string list"
  dirs_made :: "string list"

section \<open>augment_track\<close>

text \<open>\<^verbatim>\<open>f_defaults.get(param)\<close> and \<^verbatim>\<open>isinstance(v, list)\<close>.\<close>

definition defaults_get :: "(string \<times> pyval) list \<Rightarrow> string \<Rightarrow> pyval" where
  "defaults_get f_defaults param =
     (case map_of f_defaults param of None \<Rightarrow> PyNone | Some v \<Rightarrow> v)"

fun is_list :: "pyval \<Rightarrow> bool" where
  "is_list (PyList xs) = True"
| "is_list v = False"

text \<open>
  The loop over the parameters of one effect:
  \<^verbatim>\<open>
  for param, val in parameters.items():
      state = val.get('state')
      default = val.get('default')
      if state == 'constant':
          used[param] = f_defaults.get(param) if default is True else val.get('upper')
      elif state == 'random':
          if not isinstance(f_defaults.get(param), list):
              lower, upper = [val.get(bound) for bound in ['lower', 'upper']]
              assert upper > lower, 'Upper bound for {} must be ...'
              used[param] = rand(lower, upper)
              continue
          raise TypeError('Will not parse random list values!')
  \<close>
  A \<open>val\<close> that is no dictionary has no \<open>get\<close>.  \<open>rand\<close> compares its arguments with 1,
  which raises \<open>TypeError\<close> for a dictionary.
\<close>

fun resolve_parameters ::
  "'g rng \<Rightarrow> (string \<times> pyval) list \<Rightarrow> pydict \<Rightarrow> pydict \<Rightarrow> 'g \<Rightarrow> (error + pydict) \<times> 'g" where
  "resolve_parameters R f_defaults [] used g = (Inr used, g)"
| "resolve_parameters R f_defaults ((param, Val v) # ps) used g = (Inl AttributeError, g)"
| "resolve_parameters R f_defaults ((param, Dict val) # ps) used g =
     (let state = dict_get val ''state''; default = dict_get val ''default'' in
      if state = Val (PyStr ''constant'') then
        resolve_parameters R f_defaults ps
          (dict_set used param
             (if default = Val (PyBool True) then Val (defaults_get f_defaults param)
              else dict_get val ''upper'')) g
      else if state = Val (PyStr ''random'') then
        (if \<not> is_list (defaults_get f_defaults param) then
           (let lower = dict_get val ''lower''; upper = dict_get val ''upper'' in
            case obj_gt upper lower of
              Inl e \<Rightarrow> (Inl e, g)
            | Inr holds \<Rightarrow>
                if \<not> holds then (Inl AssertionError, g)
                else (case (lower, upper) of
                        (Val lo, Val up) \<Rightarrow>
                          (case rand R lo up g of
                             (Inl e, g') \<Rightarrow> (Inl e, g')
                           | (Inr v, g') \<Rightarrow>
                               resolve_parameters R f_defaults ps (dict_set used param (Val v)) g')
                      | _ \<Rightarrow> (Inl TypeError, g)))
         else (Inl TypeError, g))
      else resolve_parameters R f_defaults ps used g)"

text \<open>
  The body of the loop over the effects, after the coin flip:
  \<^verbatim>\<open>
  effect_f = getattr(FX, effect)
  f_defaults = signature(effect_f).parameters
  f_defaults = {k: f_defaults[k].default for k in f_defaults.keys()}
  used = {}
  for param, val in parameters.items(): ...
  effect_f(**used)
  labels[effect] = used
  \<close>
  \<open>fx\<close> is the list of effects the transformer holds.  A \<open>parameters\<close> that is no
  dictionary (as \<open>None\<close>) has no \<open>items\<close>.
\<close>

definition apply_effect ::
  "'g libs \<Rightarrow> 'g rng \<Rightarrow> string \<Rightarrow> pyobj \<Rightarrow> (string \<times> pydict) list \<Rightarrow> pydict \<Rightarrow> 'g
     \<Rightarrow> (error + (string \<times> pydict) list \<times> pydict) \<times> 'g" where
  "apply_effect L R effect parameters fx labels g =
     (case fx_lookup L effect of
        Inl e \<Rightarrow> (Inl e, g)
      | Inr f_defaults \<Rightarrow>
          (case parameters of
             Val v \<Rightarrow> (Inl AttributeError, g)
           | Dict ps \<Rightarrow>
               (case resolve_parameters R f_defaults ps [] g of
                  (Inl e, g') \<Rightarrow> (Inl e, g')
                | (Inr used, g') \<Rightarrow>
                    (case fx_call L effect used g' of
                       (Some e, g'') \<Rightarrow> (Inl e, g'')
                     | (None, g'') \<Rightarrow>
                         (Inr (fx @ [(effect, used)], dict_set labels effect (Dict used)), g'')))))"

text \<open>
  \<^verbatim>\<open>
  for effect, parameters in effects.items():
      if exercise.lower() == 'classification' and effect not in sustain:
          if int(random.choice([True, False])) == 0:
              continue # skip effect
      ...
  \<close>
\<close>

fun apply_effects ::
  "'g libs \<Rightarrow> 'g rng \<Rightarrow> string \<Rightarrow> string list \<Rightarrow> pydict \<Rightarrow> (string \<times> pydict) list \<Rightarrow> pydict \<Rightarrow> 'g
     \<Rightarrow> (error + (string \<times> pydict) list \<times> pydict) \<times> 'g" where
  "apply_effects L R exercise sustain [] fx labels g = (Inr (fx, labels), g)"
| "apply_effects L R exercise sustain ((effect, parameters) # es) fx labels g =
     (if py_lower exercise = ''classification'' \<and> effect \<notin> set sustain
      then (case choice_True_False R g of
              (coin, g1) \<Rightarrow>
                if \<not> coin then apply_effects L R exercise sustain es fx labels g1
                else (case apply_effect L R effect parameters fx labels g1 of
                        (Inl e, g2) \<Rightarrow> (Inl e, g2)
                      | (Inr (fx', labels'), g2) \<Rightarrow>
                          apply_effects L R exercise sustain es fx' labels' g2))
      else (case apply_effect L R effect parameters fx labels g of
              (Inl e, g2) \<Rightarrow> (Inl e, g2)
            | (Inr (fx', labels'), g2) \<Rightarrow>
                apply_effects L R exercise sustain es fx' labels' g2))"

text \<open>
  \<^verbatim>\<open>
  if write is not False:
      model = file.split('/')[-2] if '/audio/' not in file else file.split('/')[-3]
      outfile = os.path.join(write, model, str(n) + '_' + file.split('/')[-1])
      FX.build(file, outfile)
  \<close>
  \<open>write\<close> is \<open>None\<close> for \<open>False\<close> and the destination otherwise.
\<close>

definition write_track ::
  "'g libs \<Rightarrow> string \<Rightarrow> int \<Rightarrow> (string \<times> pydict) list \<Rightarrow> string option \<Rightarrow> 'g world
     \<Rightarrow> (error + unit) \<times> 'g world" where
  "write_track L file n fx write w =
     (case write of
        None \<Rightarrow> (Inr (), w)
      | Some dest \<Rightarrow>
          (case py_index (py_split CHR ''/'' file)
                  (if \<not> py_contains file ''/audio/'' then - 2 else - 3) of
             Inl e \<Rightarrow> (Inl e, w)
           | Inr model \<Rightarrow>
               (case py_index (py_split CHR ''/'' file) (- 1) of
                  Inl e \<Rightarrow> (Inl e, w)
                | Inr base \<Rightarrow>
                    (let outfile = os_path_join dest [model, str_int n @ ''_'' @ base] in
                     case fx_build L file fx of
                       Inl e \<Rightarrow> (Inl e, w)
                     | Inr audio \<Rightarrow>
                         (Inr (), w \<lparr> files_written := files_written w @ [outfile] \<rparr>)))))"

text \<open>
  \<^verbatim>\<open>
  def augment_track(file, n, effects, exercise = 'regression',
                    sustain = ['overdrive', 'reverb'], write = False):
      FX = sox.Transformer()
      labels = {}
      for effect, parameters in effects.items(): ...
      if write is not False: ...
      with tempfile.NamedTemporaryFile(suffix = '.wav') as tmp:
          FX.build(file, tmp.name)
          array, sr = librosa.load(tmp.name, sr = 41000)
          FX.clear_effects()
          flattened_labels = flatten(labels)
          flattened_labels['group'] = n
          return flattened_labels, feature_pipeline(array)
  \<close>
\<close>

definition augment_track ::
  "'g libs \<Rightarrow> 'g rng \<Rightarrow> string \<Rightarrow> int \<Rightarrow> pydict \<Rightarrow> string \<Rightarrow> string list \<Rightarrow> string option
     \<Rightarrow> 'g world \<Rightarrow> (error + pydict \<times> real list) \<times> 'g world" where
  "augment_track L R file n effects exercise sustain write w =
     (case apply_effects L R exercise sustain effects [] [] (gen w) of
        (Inl e, g') \<Rightarrow> (Inl e, w \<lparr> gen := g' \<rparr>)
      | (Inr (fx, labels), g') \<Rightarrow>
          (case write_track L file n fx write (w \<lparr> gen := g' \<rparr>) of
             (Inl e, w') \<Rightarrow> (Inl e, w')
           | (Inr u, w') \<Rightarrow>
               (case fx_build L file fx of
                  Inl e \<Rightarrow> (Inl e, w')
                | Inr audio \<Rightarrow>
                    (let array = librosa_load L audio 41000;
                         flattened_labels = flatten labels [] ''.'';
                         flattened_labels = dict_set flattened_labels ''group'' (Val (PyInt n))
                     in (Inr (flattened_labels, feature_pipeline (mfcc L) array), w')))))"

section \<open>augment_data\<close>

text \<open>
  \<^verbatim>\<open>int(s)\<close> for a string, base 10: surrounding whitespace (tab, line feed, vertical tab,
  form feed, carriage return, space) is dropped, a sign may come first, then digits, where
  single underscores may stand between digits; anything else raises \<open>ValueError\<close>.  Only
  ASCII input is covered.
\<close>

definition is_space :: "char \<Rightarrow> bool" where
  "is_space c \<longleftrightarrow>
     (9 \<le> (of_char c :: nat) \<and> (of_char c :: nat) \<le> 13) \<or> (of_char c :: nat) = 32"

definition is_digit :: "char \<Rightarrow> bool" where
  "is_digit c \<longleftrightarrow> 48 \<le> (of_char c :: nat) \<and> (of_char c :: nat) \<le> 57"

definition digit_value :: "char \<Rightarrow> nat" where
  "digit_value c = (of_char c :: nat) - 48"

definition py_strip :: "string \<Rightarrow> string" where
  "py_strip s = rev (dropWhile is_space (rev (dropWhile is_space s)))"

fun parse_digits :: "nat \<Rightarrow> string \<Rightarrow> error + nat" where
  "parse_digits acc [] = Inr acc"
| "parse_digits acc [c] =
     (if is_digit c then Inr (10 * acc + digit_value c) else Inl ValueError)"
| "parse_digits acc (c # d # cs) =
     (if is_digit c then parse_digits (10 * acc + digit_value c) (d # cs)
      else if c = CHR ''_'' \<and> is_digit d then parse_digits (10 * acc + digit_value d) cs
      else Inl ValueError)"

definition parse_unsigned :: "string \<Rightarrow> error + nat" where
  "parse_unsigned s =
     (case s of
        [] \<Rightarrow> Inl ValueError
      | c # cs \<Rightarrow> if is_digit c then parse_digits (digit_value c) cs else Inl ValueError)"

definition int_of_str :: "string \<Rightarrow> error + int" where
  "int_of_str s =
     (case py_strip s of
        [] \<Rightarrow> Inl ValueError
      | c # cs \<Rightarrow>
          if c = CHR ''-'' then
            (case parse_unsigned cs of Inl e \<Rightarrow> Inl e | Inr n \<Rightarrow> Inr (- int n))
          else if c = CHR ''+'' then
            (case parse_unsigned cs of Inl e \<Rightarrow> Inl e | Inr n \<Rightarrow> Inr (int n))
          else
            (case parse_unsigned (c # cs) of Inl e \<Rightarrow> Inl e | Inr n \<Rightarrow> Inr (int n)))"

text \<open>
  \<^verbatim>\<open>random.choices(population, k = k)\<close> without weights:
  \<^verbatim>\<open>[population[_int(random() * total)] for i in range(k)]\<close>.
\<close>

fun random_choices :: "'g rng \<Rightarrow> 'a list \<Rightarrow> nat \<Rightarrow> 'g \<Rightarrow> (error + 'a list) \<times> 'g" where
  "random_choices R population 0 g = (Inr [], g)"
| "random_choices R population (Suc k) g =
     (case rng_random R g of
        (u, g') \<Rightarrow>
          (let i = nat \<lfloor>u * real (length population)\<rfloor> in
           if i < length population
           then (case random_choices R population k g' of
                   (Inl e, g'') \<Rightarrow> (Inl e, g'')
                 | (Inr xs, g'') \<Rightarrow> (Inr (population ! i # xs), g''))
           else (Inl IndexError, g')))"

text \<open>
  \<^verbatim>\<open>
  def validate_reduce_fx(effects):
      FX = sox.Transformer()
      sox_arsenal = dict(getmembers(FX, predicate=lambda x: ismethod(x)))
      try:
          assert all(f in sox_arsenal for f in effects), 'Invalid methods provided'
          return True, effects
      except Exception as e:
          invalid = {f for f in effects if f not in sox_arsenal}
          return False, invalid
  \<close>
  The second component is the dictionary it was given, or the set of the names that are
  no methods (here a list of them).
\<close>

definition sox_arsenal :: "'g libs \<Rightarrow> string \<Rightarrow> bool" where
  "sox_arsenal L f = (case fx_lookup L f of Inl e \<Rightarrow> False | Inr d \<Rightarrow> True)"

definition validate_reduce_fx :: "'g libs \<Rightarrow> pydict \<Rightarrow> bool \<times> (string list + pydict)" where
  "validate_reduce_fx L effects =
     (if list_all (\<lambda>f. sox_arsenal L f) (map fst effects)
      then (True, Inr effects)
      else (False, Inl (filter (\<lambda>f. \<not> sox_arsenal L f) (map fst effects))))"

text \<open>
  The configuration read from YAML, as far as the run uses it:
  \<^verbatim>\<open>config['DataAugmentation']\<close> with its \<open>effects\<close> and \<open>active\<close> and the keyword
  arguments it may carry for \<open>augment_track\<close> (absent: \<open>None\<close>), and
  \<^verbatim>\<open>config['pipeline_config']['train_models']\<close>.
\<close>

record config =
  cfg_effects :: pydict
  cfg_active :: "string list"
  cfg_exercise :: "string option"
  cfg_sustain :: "string list option"
  cfg_write :: "string option"
  train_models :: "string list"

text \<open>
  What the run takes from its surroundings: the files the glob finds; the line \<open>input()\<close>
  reads (\<open>None\<close>: end of file); and
  \<^verbatim>\<open>os.path.abspath(SOURCES['DATA_DIR']) + '/processed/'\<close>.
\<close>

record surroundings =
  glob_wav :: "string list"
  input_line :: "string option"
  processed_dir :: string

text \<open>
  \<^verbatim>\<open>
  order = ['overdrive'] + [f for f in effects.keys() if f not in ['reverb', 'overdrive']] + ['reverb']
  ordered_effects = OrderedDict.fromkeys(order)
  for k,v in effects.items():
      ordered_effects[k] = v
  \<close>
\<close>

definition fixed_order :: "pydict \<Rightarrow> string list" where
  "fixed_order effects =
     [''overdrive''] @ filter (\<lambda>f. f \<notin> set [''reverb'', ''overdrive'']) (map fst effects)
       @ [''reverb'']"

definition fromkeys :: "string list \<Rightarrow> pydict" where
  "fromkeys order = foldl (\<lambda>d k. dict_set d k (Val PyNone)) [] order"

definition order_effects :: "pydict \<Rightarrow> pydict" where
  "order_effects effects = dict_update (fromkeys (fixed_order effects)) effects"

text \<open>
  Lines 298 to 319: validation, reduction to the active effects, fixed order.  When a
  configured name is no method, \<open>effects\<close> is rebound to a set, and \<^verbatim>\<open>effects.items()\<close>
  raises \<open>AttributeError\<close>.
\<close>

definition effect_chain :: "'g libs \<Rightarrow> config \<Rightarrow> error + pydict" where
  "effect_chain L cfg =
     (case validate_reduce_fx L (cfg_effects cfg) of
        (valid, Inl invalid) \<Rightarrow> Inl AttributeError
      | (valid, Inr effects) \<Rightarrow>
          Inr (order_effects (filter (\<lambda>(k, v). k \<in> set (cfg_active cfg)) effects)))"

text \<open>
  \<^verbatim>\<open>
  if write_with_effects_to:
      OUT_DIR = os.path.join(INTERIM_DIR, write_with_effects_to) + '_' + source.upper()
      print (...)
      if int(input()) == 1:
          augmentation_config['write'] = OUT_DIR
          for m in use_models_train:
              os.makedirs(os.path.dirname(os.path.join(OUT_DIR, m) + '/'), exist_ok=True)
      else:
          sys.exit('Operation cancelled')
  \<close>
  The result is the \<open>write\<close> argument for \<open>augment_track\<close>.  \<open>None\<close> and the empty string
  are the values of \<open>write_with_effects_to\<close> that count as false.

  The name \<open>INTERIM_DIR\<close> is read here, at line 323, and nowhere else in the module:
  no assignment, no import and no parameter binds it.  Its value in the namespace of the
  module is therefore none, and reading it raises \<open>NameError\<close>.
\<close>

definition INTERIM_DIR :: "string option" where
  "INTERIM_DIR = None"

definition confirm_write ::
  "surroundings \<Rightarrow> config \<Rightarrow> string option \<Rightarrow> string \<Rightarrow> 'g world
     \<Rightarrow> (error + string option) \<times> 'g world" where
  "confirm_write S cfg write_with_effects_to source w =
     (case write_with_effects_to of
        None \<Rightarrow> (Inr (cfg_write cfg), w)
      | Some dest \<Rightarrow>
          if dest = [] then (Inr (cfg_write cfg), w)
          else
            (case INTERIM_DIR of
               None \<Rightarrow> (Inl NameError, w)
             | Some interim \<Rightarrow>
                 (let OUT_DIR = os_path_join interim [dest] @ ''_'' @ py_upper source in
                  case input_line S of
                    None \<Rightarrow> (Inl EOFError, w)
                  | Some line \<Rightarrow>
                      (case int_of_str line of
                         Inl e \<Rightarrow> (Inl e, w)
                       | Inr answer \<Rightarrow>
                           if answer = 1
                           then (Inr (Some OUT_DIR),
                                 w \<lparr> dirs_made := dirs_made w @
                                       map (\<lambda>m. os_path_dirname (os_path_join OUT_DIR [m] @ ''/''))
                                         (train_models cfg) \<rparr>)
                           else (Inl (SystemExit ''Operation cancelled''), w)))))"

text \<open>
  \<^verbatim>\<open>
  for sf in train_soundfiles:
      for i in range(n_augment):
          store_all.append(augment_track(sf, n = i, **augmentation_config))
  \<close>
  over the pairs \<open>(sf, i)\<close> in the order of the two loops.  The defaults of
  \<open>augment_track\<close> stand in for the keyword arguments the configuration lacks.
\<close>

fun augment_pairs ::
  "'g libs \<Rightarrow> 'g rng \<Rightarrow> pydict \<Rightarrow> string \<Rightarrow> string list \<Rightarrow> string option \<Rightarrow> (string \<times> nat) list
     \<Rightarrow> 'g world \<Rightarrow> (error + (pydict \<times> real list) list) \<times> 'g world" where
  "augment_pairs L R effects exercise sustain write [] w = (Inr [], w)"
| "augment_pairs L R effects exercise sustain write ((sf, i) # ps) w =
     (case augment_track L R sf (int i) effects exercise sustain write w of
        (Inl e, w') \<Rightarrow> (Inl e, w')
      | (Inr r, w') \<Rightarrow>
          (case augment_pairs L R effects exercise sustain write ps w' of
             (Inl e, w'') \<Rightarrow> (Inl e, w'')
           | (Inr rs, w'') \<Rightarrow> (Inr (r # rs), w'')))"

definition loop_pairs :: "string list \<Rightarrow> nat \<Rightarrow> (string \<times> nat) list" where
  "loop_pairs train_soundfiles n_augment =
     concat (map (\<lambda>sf. map (\<lambda>i. (sf, i)) [0..<n_augment]) train_soundfiles)"

text \<open>
  \<^verbatim>\<open>pd.DataFrame(list(labels))\<close>: one row for each dictionary and a column for every key
  that occurs, in the order in which the keys first appear.  \<open>PyObj ''nan''\<close> stands for
  NaN, which fills the place where a row has no value.

  pandas then gives each column a type, from the kinds of the entries it holds (a missing
  entry counts as NaN).  A column that holds a string, a list or another object, or a
  boolean, keeps its entries as they are.  A column of integers alone stays a column of
  integers.  Any other column that holds a float, a NaN, or an integer beside a \<open>None\<close>
  becomes a column of floats: its integers are converted, and \<open>None\<close> becomes NaN.
  Integers are taken to fit the 64 bits of the integer column.
\<close>

datatype kind = KInt | KFloat | KBool | KNull | KNaN | KObject

fun kind_of :: "pyobj option \<Rightarrow> kind" where
  "kind_of None = KNaN"
| "kind_of (Some (Val (PyInt i))) = KInt"
| "kind_of (Some (Val (PyFloat x))) = KFloat"
| "kind_of (Some (Val (PyBool b))) = KBool"
| "kind_of (Some (Val PyNone)) = KNull"
| "kind_of (Some v) = KObject"

definition column :: "pydict list \<Rightarrow> string \<Rightarrow> pyobj option list" where
  "column records c = map (\<lambda>r. map_of r c) records"

definition float_column :: "pyobj option list \<Rightarrow> bool" where
  "float_column entries \<longleftrightarrow>
     (let kinds = map kind_of entries in
      KObject \<notin> set kinds \<and> KBool \<notin> set kinds \<and>
      (KNaN \<in> set kinds \<or> KFloat \<in> set kinds \<or> (KNull \<in> set kinds \<and> KInt \<in> set kinds)))"

fun stored :: "bool \<Rightarrow> pyobj option \<Rightarrow> pyobj" where
  "stored as_float None = Val (PyObj ''nan'')"
| "stored as_float (Some (Val (PyInt i))) =
     (if as_float then Val (PyFloat (of_int i)) else Val (PyInt i))"
| "stored as_float (Some (Val PyNone)) =
     (if as_float then Val (PyObj ''nan'') else Val PyNone)"
| "stored as_float (Some v) = v"

definition first_seen :: "'a list \<Rightarrow> 'a list" where
  "first_seen xs = rev (remdups (rev xs))"

definition data_frame :: "pydict list \<Rightarrow> pydict list" where
  "data_frame records =
     (let columns = first_seen (concat (map (map fst) records)) in
      map (\<lambda>r. map (\<lambda>c. (c, stored (float_column (column records c)) (map_of r c))) columns)
        records)"

text \<open>\<^verbatim>\<open>Y_train[name] = pd.Series(values)\<close> aligns on the row number; the strings make
  a column of objects.\<close>

definition set_column :: "pydict list \<Rightarrow> string \<Rightarrow> string list \<Rightarrow> pydict list" where
  "set_column frame name values =
     map (\<lambda>i. dict_set (frame ! i) name
                (if i < length values then Val (PyStr (values ! i)) else Val (PyObj ''nan'')))
       [0..<length frame]"

text \<open>
  \<^verbatim>\<open>
  def gt(x, ix): return x.split('/')[ix]
  file_meta = [(gt(x, ix = -2 if source != 'sn' else -3), gt(x, ix = -1).rstrip('.wav'))
               for x in train_soundfiles]
  \<close>
\<close>

definition gt :: "string \<Rightarrow> int \<Rightarrow> error + string" where
  "gt x ix = py_index (py_split CHR ''/'' x) ix"

definition file_meta :: "string \<Rightarrow> string \<Rightarrow> error + string \<times> string" where
  "file_meta source x =
     (case gt x (if source \<noteq> ''sn'' then - 2 else - 3) of
        Inl e \<Rightarrow> Inl e
      | Inr model \<Rightarrow>
          (case gt x (- 1) of
             Inl e \<Rightarrow> Inl e
           | Inr name \<Rightarrow> Inr (model, py_rstrip name ''.wav'')))"

text \<open>
  Lines 339 to 368, from the effect chain and the \<open>write\<close> argument on.  Unpacking
  \<^verbatim>\<open>zip(*store_all)\<close> into two names raises \<open>ValueError\<close> when \<open>store_all\<close> is empty.
  With \<open>make_training_set\<close> the two artifacts are written below \<open>processed_dir\<close>.
\<close>

definition assemble ::
  "'g libs \<Rightarrow> 'g rng \<Rightarrow> surroundings \<Rightarrow> config \<Rightarrow> pydict \<Rightarrow> string option \<Rightarrow> string list \<Rightarrow> nat
     \<Rightarrow> bool \<Rightarrow> string \<Rightarrow> 'g world \<Rightarrow> (error + ndarray list \<times> pydict list) \<times> 'g world" where
  "assemble L R S cfg effects write train_soundfiles n_augment make_training_set source w =
     (case augment_pairs L R effects
             (case cfg_exercise cfg of None \<Rightarrow> ''regression'' | Some e \<Rightarrow> e)
             (case cfg_sustain cfg of None \<Rightarrow> [''overdrive'', ''reverb''] | Some s \<Rightarrow> s)
             write (loop_pairs train_soundfiles n_augment) w of
        (Inl e, w') \<Rightarrow> (Inl e, w')
      | (Inr store_all, w') \<Rightarrow>
          if store_all = [] then (Inl ValueError, w')
          else
            (let labels = map fst store_all; features = map snd store_all;
                 all_features = map expand_dims1 features in
             case pad all_features of
               Inl e \<Rightarrow> (Inl e, w')
             | Inr X_train \<Rightarrow>
                 (case map_raising (file_meta source) train_soundfiles of
                    Inl e \<Rightarrow> (Inl e, w')
                  | Inr meta \<Rightarrow>
                      (let models = concat (map (\<lambda>m. replicate n_augment m) (map fst meta));
                           chordnames = concat (map (\<lambda>m. replicate n_augment m) (map snd meta));
                           Y_train = data_frame labels;
                           Y_train = set_column Y_train ''model'' models;
                           Y_train = set_column Y_train ''chords'' chordnames
                       in (Inr (X_train, Y_train),
                           (if make_training_set
                            then w' \<lparr> files_written := files_written w' @
                                   [processed_dir S @ ''training_X_'' @ source @ ''.npy'',
                                    processed_dir S @ ''training_Y_'' @ source @ ''.csv''] \<rparr>
                            else w'))))))"

text \<open>
  \<^verbatim>\<open>
  def augment_data(SOURCES, subsample = False, n_augment = 1,
                   write_with_effects_to = False, make_training_set = False, source = 'power'):
  \<close>
  \<open>subsample\<close> is \<open>None\<close> for \<open>False\<close>.  Reading the configuration and the glob are taken as
  done (\<open>cfg\<close>, \<open>glob_wav\<close>).  \<open>select_files\<close> is
  \<^verbatim>\<open>
  if subsample is not False:
      train_soundfiles = random.choices(population = train_soundfiles, k = subsample)
  \<close>
\<close>

definition select_files ::
  "'g rng \<Rightarrow> surroundings \<Rightarrow> nat option \<Rightarrow> 'g \<Rightarrow> (error + string list) \<times> 'g" where
  "select_files R S subsample g =
     (case subsample of
        None \<Rightarrow> (Inr (glob_wav S), g)
      | Some k \<Rightarrow> random_choices R (glob_wav S) k g)"

definition augment_data ::
  "'g libs \<Rightarrow> 'g rng \<Rightarrow> surroundings \<Rightarrow> config \<Rightarrow> nat option \<Rightarrow> nat \<Rightarrow> string option \<Rightarrow> bool
     \<Rightarrow> string \<Rightarrow> 'g world \<Rightarrow> (error + ndarray list \<times> pydict list) \<times> 'g world" where
  "augment_data L R S cfg subsample n_augment write_with_effects_to make_training_set source w =
     (case select_files R S subsample (gen w) of
        (Inl e, g') \<Rightarrow> (Inl e, w \<lparr> gen := g' \<rparr>)
      | (Inr train_soundfiles, g') \<Rightarrow>
          (case effect_chain L cfg of
             Inl e \<Rightarrow> (Inl e, w \<lparr> gen := g' \<rparr>)
           | Inr ordered_effects \<Rightarrow>
               (case confirm_write S cfg write_with_effects_to source (w \<lparr> gen := g' \<rparr>) of
                  (Inl e, w') \<Rightarrow> (Inl e, w')
                | (Inr write, w') \<Rightarrow>
                    assemble L R S cfg ordered_effects write train_soundfiles n_augment
                      make_training_set source w')))"

section \<open>A small instance to run the definitions on\<close>

text \<open>
  Three methods of the transformer with the defaults pysox declares for them (tuples
  appear as opaque objects), calls and builds that always succeed, a rendering of two
  samples, and the stand-in for the MFCC.
\<close>

definition demo_libs :: "nat libs" where
  "demo_libs =
     \<lparr> fx_lookup = (\<lambda>effect.
         if effect = ''overdrive''
         then Inr [(''gain_db'', PyFloat 20), (''colour'', PyFloat 20)]
         else if effect = ''reverb''
         then Inr [(''reverberance'', PyFloat 50), (''high_freq_damping'', PyFloat 50),
                   (''room_scale'', PyFloat 100), (''stereo_depth'', PyFloat 100),
                   (''pre_delay'', PyFloat 0), (''wet_gain'', PyFloat 0),
                   (''wet_only'', PyBool False)]
         else if effect = ''compand''
         then Inr [(''attack_time'', PyFloat (3 / 10)), (''decay_time'', PyFloat (8 / 10)),
                   (''soft_knee_db'', PyFloat 6),
                   (''tf_points'',
                    PyList [PyObj ''(-70, -70)'', PyObj ''(-60, -20)'', PyObj ''(0, 0)''])]
         else Inl AttributeError),
       fx_call = (\<lambda>effect used g. (None, g)),
       fx_build = (\<lambda>file fx. Inr [0, 0]),
       librosa_load = (\<lambda>audio sr. audio),
       mfcc = mfcc_shape_only \<rparr>"

definition demo_world :: "nat world" where
  "demo_world = \<lparr> gen = 0, files_written = [], dirs_made = [] \<rparr>"

text \<open>A configuration for the instance: three effects, listed with \<open>reverb\<close> first and
  \<open>overdrive\<close> last, all active, and one model directory.\<close>

definition demo_config :: config where
  "demo_config =
     \<lparr> cfg_effects =
         [(''reverb'', Dict [(''reverberance'',
              Dict [(''state'', Val (PyStr ''constant'')), (''default'', Val (PyBool True))])]),
          (''compand'', Dict [(''attack_time'',
              Dict [(''state'', Val (PyStr ''constant'')), (''default'', Val (PyBool False)),
                    (''upper'', Val (PyFloat (1 / 2)))])]),
          (''overdrive'', Dict [(''gain_db'',
              Dict [(''state'', Val (PyStr ''random'')), (''lower'', Val (PyInt 5)),
                    (''upper'', Val (PyInt 30))])])],
       cfg_active = [''reverb'', ''compand'', ''overdrive''],
       cfg_exercise = None,
       cfg_sustain = None,
       cfg_write = None,
       train_models = [''strat''] \<rparr>"

text \<open>The same configuration with \<open>reverb\<close> as the only active effect.\<close>

definition reverb_only :: config where
  "reverb_only = demo_config \<lparr> cfg_active := [''reverb''] \<rparr>"

text \<open>A parameter specification with state \<open>random\<close> whose upper bound 3 is below its
  lower bound 5.\<close>

definition bad_bounds :: pydict where
  "bad_bounds =
     [(''state'', Val (PyStr ''random'')), (''lower'', Val (PyInt 5)), (''upper'', Val (PyInt 3))]"

text \<open>Surroundings for the instance: two files of one model found, and the given line
  waiting on the standard input.\<close>

definition demo_surroundings :: "string \<Rightarrow> surroundings" where
  "demo_surroundings line =
     \<lparr> glob_wav = [''guitar/strat/Am.wav'', ''guitar/strat/C7.wav''],
       input_line = Some line,
       processed_dir = ''data/processed/'' \<rparr>"

text \<open>The end-to-end scenario of the specification: \<open>overdrive\<close> and \<open>reverb\<close>, each with
  one parameter that is constant at the library default, under the regression policy.\<close>

definition scenario_config :: config where
  "scenario_config =
     \<lparr> cfg_effects =
         [(''overdrive'', Dict [(''gain_db'',
              Dict [(''state'', Val (PyStr ''constant'')), (''default'', Val (PyBool True))])]),
          (''reverb'', Dict [(''reverberance'',
              Dict [(''state'', Val (PyStr ''constant'')), (''default'', Val (PyBool True))])])],
       cfg_active = [''overdrive'', ''reverb''],
       cfg_exercise = Some ''regression'',
       cfg_sustain = None,
       cfg_write = None,
       train_models = [''strat''] \<rparr>"

section \<open>Properties of flatten\<close>

lemma flatten_example:
  "flatten [(''overdrive'', Dict [(''gain'', Val (PyInt 3))])] [] ''.''
     = [(''overdrive.gain'', Val (PyInt 3))]"
  by (simp add: flatten_def)

text \<open>
  C6.  The claim: flatten yields the dot-joined path from the root to each leaf as key
  and returns a mapping without dictionary values unchanged.  The code joins the empty
  parent, the separator and the key at a leaf of the root, so the key of such a leaf
  starts with the separator: \<^verbatim>\<open>flatten({'a': 1})\<close> is \<^verbatim>\<open>{'.a': 1}\<close>, and the flat mapping
  is not returned unchanged.  Below a nested dictionary the key is the dot-joined path.
\<close>

theorem flatten_flat_mapping_gets_separator:
  "flatten [(''a'', Val (PyInt 1))] [] ''.'' = [(''.a'', Val (PyInt 1))] \<and>
   flatten [(''a'', Val (PyInt 1))] [] ''.'' \<noteq> [(''a'', Val (PyInt 1))] \<and>
   flatten [(''a'', Val (PyInt 1)), (''fx'', Dict [(''gain'', Val (PyInt 3))])] [] ''.''
     = [(''.a'', Val (PyInt 1)), (''fx.gain'', Val (PyInt 3))]"
  by (simp add: flatten_def)

section \<open>Properties of feature_pipeline\<close>

lemma length_np_mean_axis0: "length (np_mean_axis0 m) = ncols m"
  by (simp add: np_mean_axis0_def)

text \<open>
  C1.  The claim: the vector returned has the length of the coefficient count, 26, for
  every duration.  The code averages over axis 0, the coefficients, so the vector has one
  entry for each time frame: its length is the column count of the MFCC array.  With
  the shape librosa gives, a waveform of 1024 samples yields 3 entries and one of 512
  samples yields 2.
\<close>

theorem feature_pipeline_length_is_frame_count:
  "length (feature_pipeline mfcc_f arr) = ncols (mfcc_f arr 44100 26) \<and>
   length (feature_pipeline mfcc_shape_only (replicate 1024 0)) = 3 \<and>
   length (feature_pipeline mfcc_shape_only (replicate 512 0)) = 2"
  by (simp add: feature_pipeline_def length_np_mean_axis0 mfcc_shape_only_def np_zeros_def)

section \<open>Properties of rand\<close>

lemma py_lt_one_num: "py_num x = Some a \<Longrightarrow> py_lt x (PyInt 1) = Inr (a < 1)"
  by (cases x) auto

lemma int_arg_num: "int_arg x = Inr i \<Longrightarrow> py_num x = Some (real_of_int i)"
  by (cases x) (auto split: if_splits)

lemma int_arg_add1: "int_arg y = Inr j \<Longrightarrow> \<exists>s. py_add1 y = Inr s \<and> int_arg s = Inr (j + 1)"
  by (cases y) (auto split: if_splits)

lemma uniform_between:
  fixes a b u :: real
  assumes "0 \<le> u" "u < 1"
  shows "min a b \<le> a + (b - a) * u \<and> a + (b - a) * u \<le> max a b"
proof (cases "a \<le> b")
  case True
  have lo: "0 \<le> (b - a) * u" using True assms by simp
  have "(b - a) * u \<le> (b - a) * 1"
    by (rule mult_left_mono) (use True assms in auto)
  then have hi: "(b - a) * u \<le> b - a" by (simp only: mult_1_right)
  from True have "min a b = a" "max a b = b" by auto
  with lo hi show ?thesis by linarith
next
  case False
  have hi: "(b - a) * u \<le> 0" using False assms by (simp add: mult_le_0_iff)
  have "(b - a) * 1 \<le> (b - a) * u"
    by (rule mult_left_mono_neg) (use False assms in auto)
  then have lo: "b - a \<le> (b - a) * u" by (simp only: mult_1_right)
  from False have "min a b = b" "max a b = a" by auto
  with lo hi show ?thesis by linarith
qed

lemma counter_rng_ok: "rng_ok counter_rng"
  by (simp add: rng_ok_def counter_rng_def)

text \<open>
  C3.  The claim: below 1 on both sides rand returns a value of the closed interval
  between the bounds, in either order; otherwise it returns an integer of the inclusive
  range.  The second half fails: \<^verbatim>\<open>rand(5, 3)\<close> calls \<^verbatim>\<open>random.randint(5, 3)\<close>, which
  raises \<open>ValueError\<close> for the empty range, and so does a bound that is no whole number.
\<close>

theorem rand_5_3_raises: "rand counter_rng (PyInt 5) (PyInt 3) 0 = (Inl ValueError, 0)"
  by (simp add: rand_def random_randint_def randrange_def)

text \<open>
  C3 as amended.  For a generator within its contract: when both bounds are numbers
  below 1, \<open>rand\<close> returns a float between them, in either order; when both are whole
  numbers, at least one is 1 or more, and \<open>x \<le> y\<close>, it returns an integer \<open>k\<close> with
  \<open>x \<le> k \<le> y\<close>.
\<close>

theorem rand_range:
  assumes "rng_ok R"
  shows "(py_num x = Some a \<and> py_num y = Some b \<and> a < 1 \<and> b < 1 \<longrightarrow>
           (\<exists>v g'. rand R x y g = (Inr (PyFloat v), g') \<and> min a b \<le> v \<and> v \<le> max a b)) \<and>
         (int_arg x = Inr i \<and> int_arg y = Inr j \<and> \<not> (i < 1 \<and> j < 1) \<and> i \<le> j \<longrightarrow>
           (\<exists>k g'. rand R x y g = (Inr (PyInt k), g') \<and> i \<le> k \<and> k \<le> j))"
proof (intro conjI impI)
  assume h: "py_num x = Some a \<and> py_num y = Some b \<and> a < 1 \<and> b < 1"
  obtain u g' where u: "rng_random R g = (u, g')" by (cases "rng_random R g")
  from assms have "0 \<le> fst (rng_random R g)" "fst (rng_random R g) < 1"
    by (auto simp: rng_ok_def)
  with u have "0 \<le> u" "u < 1" by auto
  from uniform_between[OF this, of a b] h u
  show "\<exists>v g'. rand R x y g = (Inr (PyFloat v), g') \<and> min a b \<le> v \<and> v \<le> max a b"
    by (simp add: rand_def py_lt_one_num random_uniform_def)
next
  assume h: "int_arg x = Inr i \<and> int_arg y = Inr j \<and> \<not> (i < 1 \<and> j < 1) \<and> i \<le> j"
  then obtain s where s: "py_add1 y = Inr s" "int_arg s = Inr (j + 1)"
    using int_arg_add1 by blast
  obtain k g' where k: "rng_randbelow R (nat (j + 1 - i)) g = (k, g')"
    by (cases "rng_randbelow R (nat (j + 1 - i)) g")
  from h have pos: "0 < nat (j + 1 - i)" by simp
  with assms have "fst (rng_randbelow R (nat (j + 1 - i)) g) < nat (j + 1 - i)"
    unfolding rng_ok_def by blast
  with k have kb: "k < nat (j + 1 - i)" by simp
  from h have nx: "py_num x = Some (real_of_int i)" and ny: "py_num y = Some (real_of_int j)"
    by (auto dest: int_arg_num)
  have "rand R x y g = random_randint R x y g"
    using h nx ny by (auto simp: rand_def)
  also have "\<dots> = (Inr (PyInt (i + int k)), g')"
    using h s k by (simp add: random_randint_def randrange_def)
  finally show "\<exists>k g'. rand R x y g = (Inr (PyInt k), g') \<and> i \<le> k \<and> k \<le> j"
    using kb by auto
qed

theorem rand_range_witness:
  "rng_ok counter_rng \<and>
   (\<exists>v g'. rand counter_rng (PyFloat (1/4)) (PyInt 0) 0 = (Inr (PyFloat v), g') \<and> 0 \<le> v \<and> v \<le> 1/4) \<and>
   (\<exists>k g'. rand counter_rng (PyInt 3) (PyInt 5) 0 = (Inr (PyInt k), g') \<and> 3 \<le> k \<and> k \<le> 5)"
  using rand_range[OF counter_rng_ok, where x = "PyFloat (1/4)" and a = "1/4" and y = "PyInt 0"
          and b = 0 and g = 0 and i = 0 and j = 0]
        rand_range[OF counter_rng_ok, where x = "PyInt 3" and a = 3 and y = "PyInt 5"
          and b = 5 and g = 0 and i = 3 and j = 5]
        counter_rng_ok
  by simp

section \<open>Properties of pad\<close>

lemma foldl_max_first:
  fixes s :: "nat \<times> nat"
  shows "(\<forall>t \<in> set (s # ss). fst t \<le> fst (foldl (\<lambda>best t. if fst best < fst t then t else best) s ss)) \<and>
   foldl (\<lambda>best t. if fst best < fst t then t else best) s ss \<in> set (s # ss)"
proof (induction ss arbitrary: s)
  case Nil
  then show ?case by simp
next
  case (Cons t ss)
  show ?case
  proof (cases "fst s < fst t")
    case True
    with Cons[of t] show ?thesis by (auto intro: less_imp_le order_trans)
  next
    case False
    with Cons[of s] show ?thesis by (auto intro: order_trans)
  qed
qed

lemma max_by_first_bound:
  assumes "max_by_first (map shape l) = Inr (X, Y)" "a \<in> set l"
  shows "nrows a \<le> X"
proof -
  from assms obtain b bs where l: "l = b # bs" by (cases l) auto
  let ?m = "foldl (\<lambda>best t. if fst best < fst t then t else best) (shape b) (map shape bs)"
  from assms l have m: "?m = (X, Y)" by simp
  from assms(2) l have "shape a \<in> set (shape b # map shape bs)" by auto
  with foldl_max_first[of "shape b" "map shape bs"] have "fst (shape a) \<le> fst ?m" by blast
  with m show ?thesis by (simp add: shape_def)
qed

lemma map_raising_all:
  "(\<forall>x \<in> set xs. f x = Inr (g x)) \<Longrightarrow> map_raising f xs = Inr (map g xs)"
  by (induction xs) auto

lemma cell_np_zeros: "i < X \<Longrightarrow> j < Y \<Longrightarrow> cell (np_zeros (X, Y)) i j = 0"
  by (simp add: cell_def np_zeros_def)

lemma shape_np_zeros [simp]: "nrows (np_zeros (X, Y)) = X" "ncols (np_zeros (X, Y)) = Y"
  by (simp_all add: np_zeros_def)

lemma padder_fits:
  assumes "nrows inp \<le> X" "ncols inp \<le> Y"
  shows "padder inp (X, Y) = Inr (padded (X, Y) inp)"
proof -
  have eq: "map (\<lambda>i. map (\<lambda>j. if i < nrows inp \<and> j < ncols inp
                 then cell inp (if nrows inp = 1 then 0 else i) (if ncols inp = 1 then 0 else j)
                 else cell (np_zeros (X, Y)) i j) [0..<Y]) [0..<X]
      = map (\<lambda>i. map (\<lambda>j. if i < nrows inp \<and> j < ncols inp then cell inp i j else 0) [0..<Y]) [0..<X]"
    by (auto simp: cell_np_zeros)
  have "padder inp (X, Y) =
        Inr (np_zeros (X, Y) \<lparr> cells := map (\<lambda>i. map (\<lambda>j. if i < nrows inp \<and> j < ncols inp
                 then cell inp (if nrows inp = 1 then 0 else i) (if ncols inp = 1 then 0 else j)
                 else cell (np_zeros (X, Y)) i j) [0..<Y]) [0..<X] \<rparr>)"
    using assms by (simp add: padder_def setitem_topleft_def Let_def min_absorb1)
  also have "\<dots> = Inr (padded (X, Y) inp)"
    unfolding eq by (simp add: padded_def np_zeros_def)
  finally show ?thesis .
qed

lemma cell_padded:
  "i < X \<Longrightarrow> j < Y \<Longrightarrow>
   cell (padded (X, Y) inp) i j = (if i < nrows inp \<and> j < ncols inp then cell inp i j else 0)"
  by (simp add: padded_def cell_def)

lemma shape_padded: "shape (padded s inp) = s"
  by (simp add: padded_def shape_def)

lemma well_shaped_padded: "well_shaped (padded s inp)"
  by (simp add: padded_def well_shaped_def list_all_iff)

lemma pad_fits:
  assumes m: "max_by_first (map shape l) = Inr (X, Y)"
      and c: "\<forall>a \<in> set l. ncols a \<le> Y"
  shows "pad l = Inr (map (padded (X, Y)) l)"
proof -
  have "\<forall>a \<in> set l. padder a (X, Y) = Inr (padded (X, Y) a)"
    using max_by_first_bound[OF m] c by (auto intro: padder_fits)
  then show ?thesis using m by (simp add: pad_def map_raising_all)
qed

text \<open>
  C2 as amended.  For a non-empty list of 2-D arrays, let \<open>(X, Y)\<close> be the shape \<open>pad\<close>
  selects, that of the first array with the most rows.  If no array has more than \<open>Y\<close>
  columns, \<open>pad\<close> returns one slice for each array, each of shape \<open>(X, Y)\<close>, equal to the
  original array in the top-left submatrix of the original's shape and zero in every
  other entry.
\<close>

theorem pad_top_left:
  assumes "l_arrays \<noteq> []"
      and "max_by_first (map shape l_arrays) = Inr (X, Y)"
      and "\<forall>a \<in> set l_arrays. ncols a \<le> Y"
  shows "\<exists>batch_x. pad l_arrays = Inr batch_x \<and> length batch_x = length l_arrays \<and>
           (\<forall>k < length l_arrays.
              shape (batch_x ! k) = (X, Y) \<and> well_shaped (batch_x ! k) \<and>
              nrows (l_arrays ! k) \<le> X \<and>
              (\<forall>i < X. \<forall>j < Y.
                 cell (batch_x ! k) i j =
                   (if i < nrows (l_arrays ! k) \<and> j < ncols (l_arrays ! k)
                    then cell (l_arrays ! k) i j else 0)))"
proof -
  have p: "pad l_arrays = Inr (map (padded (X, Y)) l_arrays)"
    using assms(2,3) by (rule pad_fits)
  have "\<forall>k < length l_arrays. nrows (l_arrays ! k) \<le> X"
    using max_by_first_bound[OF assms(2)] by simp
  then show ?thesis unfolding p
    by (simp add: cell_padded well_shaped_padded shape_padded)
qed

text \<open>
  C2.  The claim: for every non-empty list of 2-D arrays the slices of the returned
  array hold the originals in the top-left corner, zero elsewhere.  The maximum is taken
  by the first dimension only.  For arrays of shape \<open>(2, 0)\<close> and \<open>(1, 1)\<close> the grid has
  shape \<open>(2, 0)\<close>; the second array is broadcast into a view without columns, and the
  slice returned for it has no entry that could hold its value 5.  For arrays of shape
  \<open>(2, 1)\<close> and \<open>(1, 2)\<close> the grid has shape \<open>(2, 1)\<close>, the second array cannot be
  broadcast, and the copy raises \<open>ValueError\<close>: nothing is returned.
\<close>

theorem pad_loses_or_raises_on_wider_array:
  "pad [\<lparr> nrows = 2, ncols = 0, cells = [[], []] \<rparr>,
        \<lparr> nrows = 1, ncols = 1, cells = [[5]] \<rparr>]
     = Inr [\<lparr> nrows = 2, ncols = 0, cells = [[], []] \<rparr>,
            \<lparr> nrows = 2, ncols = 0, cells = [[], []] \<rparr>] \<and>
   pad [\<lparr> nrows = 2, ncols = 1, cells = [[1], [1]] \<rparr>,
        \<lparr> nrows = 1, ncols = 2, cells = [[1, 1]] \<rparr>] = Inl ValueError"
  by (simp add: pad_def shape_def padder_def setitem_topleft_def Let_def np_zeros_def
        numeral_2_eq_2)

theorem pad_top_left_witness:
  "\<exists>batch_x. pad [\<lparr> nrows = 2, ncols = 2, cells = [[1, 2], [3, 4]] \<rparr>,
                   \<lparr> nrows = 1, ncols = 1, cells = [[5]] \<rparr>] = Inr batch_x \<and>
      length batch_x = 2 \<and> shape (batch_x ! 1) = (2, 2) \<and>
      cell (batch_x ! 0) 1 0 = 3 \<and> cell (batch_x ! 1) 0 0 = 5 \<and> cell (batch_x ! 1) 0 1 = 0 \<and>
      cell (batch_x ! 1) 1 0 = 0 \<and> cell (batch_x ! 1) 1 1 = 0"
proof -
  let ?l = "[\<lparr> nrows = 2, ncols = 2, cells = [[1, 2], [3, 4]] \<rparr>,
             \<lparr> nrows = 1, ncols = 1, cells = [[5]] \<rparr>]"
  have 1: "?l \<noteq> []" by simp
  have 2: "max_by_first (map shape ?l) = Inr (2, 2)" by (simp add: shape_def)
  have 3: "\<forall>a \<in> set ?l. ncols a \<le> 2" by simp
  from pad_top_left[OF 1 2 3] obtain batch_x where
    b: "pad ?l = Inr batch_x" "length batch_x = 2"
       "\<forall>k < 2. shape (batch_x ! k) = (2, 2) \<and> well_shaped (batch_x ! k) \<and>
              nrows (?l ! k) \<le> 2 \<and>
              (\<forall>i < 2. \<forall>j < 2.
                 cell (batch_x ! k) i j =
                   (if i < nrows (?l ! k) \<and> j < ncols (?l ! k)
                    then cell (?l ! k) i j else 0))"
    by auto
  have k0: "\<forall>i < 2. \<forall>j < 2. cell (batch_x ! 0) i j =
                   (if i < nrows (?l ! 0) \<and> j < ncols (?l ! 0) then cell (?l ! 0) i j else 0)"
    using b(3) by simp
  have k1: "\<forall>i < 2. \<forall>j < 2. cell (batch_x ! 1) i j =
                   (if i < nrows (?l ! 1) \<and> j < ncols (?l ! 1) then cell (?l ! 1) i j else 0)"
       and s1: "shape (batch_x ! 1) = (2, 2)"
    using b(3) by simp_all
  have "cell (batch_x ! 0) 1 0 = 3" using k0 by (simp add: cell_def)
  moreover have "cell (batch_x ! 1) 0 0 = 5" using k1 by (simp add: cell_def)
  moreover have "cell (batch_x ! 1) 0 1 = 0" using k1 by simp
  moreover have "cell (batch_x ! 1) 1 0 = 0" using k1 by simp
  moreover have "cell (batch_x ! 1) 1 1 = 0" using k1 by simp
  ultimately show ?thesis using b(1,2) s1 by blast
qed

section \<open>Properties of the effect chain\<close>

lemma keys_dict_set:
  "map fst (dict_set d k v) = (if k \<in> fst ` set d then map fst d else map fst d @ [k])"
  by (induction d) force+

lemma key_set_dict_set: "fst ` set (dict_set d k v) = insert k (fst ` set d)"
proof -
  have "set (map fst (dict_set d k v)) = insert k (set (map fst d))"
    unfolding keys_dict_set by auto
  then show ?thesis by simp
qed

lemma map_of_dict_set:
  "map_of (dict_set d k v) k' = (if k' = k then Some v else map_of d k')"
  by (induction d) auto

lemma keys_foldl_set:
  "fst ` set (foldl (\<lambda>d k. dict_set d k v) d xs) = fst ` set d \<union> set xs"
  by (induction xs arbitrary: d) (simp_all add: key_set_dict_set)

lemma keys_foldl_prefix:
  "\<exists>r. map fst (foldl (\<lambda>d k. dict_set d k v) d xs) = map fst d @ r"
proof (induction xs arbitrary: d)
  case Nil
  then show ?case by simp
next
  case (Cons x xs)
  from Cons[of "dict_set d x v"] obtain r where
    "map fst (foldl (\<lambda>d k. dict_set d k v) (dict_set d x v) xs) = map fst (dict_set d x v) @ r"
    by blast
  then show ?case by (auto simp: keys_dict_set)
qed

lemma map_of_foldl_set:
  "map_of (foldl (\<lambda>d k. dict_set d k v) d xs) k = (if k \<in> set xs then Some v else map_of d k)"
  by (induction xs arbitrary: d) (auto simp: map_of_dict_set)

lemma keys_dict_update_same:
  "fst ` set e \<subseteq> fst ` set d \<Longrightarrow> map fst (dict_update d e) = map fst d"
proof (induction e arbitrary: d)
  case Nil
  then show ?case by simp
next
  case (Cons x e)
  obtain k v where x: "x = (k, v)" by (cases x)
  from Cons.prems x have k: "k \<in> fst ` set d" by auto
  then have same: "map fst (dict_set d k v) = map fst d" by (simp add: keys_dict_set)
  have "fst ` set e \<subseteq> fst ` set (dict_set d k v)"
    using Cons.prems by (auto simp: key_set_dict_set)
  from Cons.IH[OF this] same x show ?case by simp
qed

lemma map_of_dict_update_other:
  "k \<notin> fst ` set e \<Longrightarrow> map_of (dict_update d e) k = map_of d k"
  by (induction e arbitrary: d) (auto simp: map_of_dict_set)

lemma distinct_keys_foldl_set:
  "distinct (map fst d) \<Longrightarrow> distinct (map fst (foldl (\<lambda>d k. dict_set d k v) d xs))"
  by (induction xs arbitrary: d) (auto simp: keys_dict_set)

lemma keys_foldl_first_last:
  assumes "a \<noteq> b" "a \<notin> set mid" "b \<notin> set mid"
  shows "\<exists>middle. map fst (foldl (\<lambda>d k. dict_set d k v) [] ([a] @ mid @ [b])) = [a] @ middle @ [b]
           \<and> set middle = set mid"
proof -
  let ?f = "\<lambda>d k. dict_set d k v"
  let ?d = "foldl ?f [(a, v)] mid"
  obtain r where r: "map fst ?d = [a] @ r"
    using keys_foldl_prefix[of v "[(a, v)]" mid] by auto
  have sr: "fst ` set ?d = insert a (set mid)"
    using keys_foldl_set[of v "[(a, v)]" mid] by simp
  have "distinct (map fst ?d)"
    by (rule distinct_keys_foldl_set) simp
  with r have nr: "a \<notin> set r" by simp
  have "set (map fst ?d) = insert a (set r)" unfolding r by simp
  with sr have "insert a (set r) = insert a (set mid)" by simp
  with nr assms(2) have m: "set r = set mid" by (rule_tac insert_ident [THEN iffD1]) auto
  have notin: "b \<notin> fst ` set ?d"
    unfolding sr using assms by simp
  have "foldl ?f [] ([a] @ mid @ [b]) = dict_set ?d b v" by simp
  then have "map fst (foldl ?f [] ([a] @ mid @ [b])) = map fst ?d @ [b]"
    using notin by (simp only: keys_dict_set if_False)
  with r m show ?thesis by auto
qed

lemma keys_order_effects:
  "\<exists>middle. map fst (order_effects effects) = [''overdrive''] @ middle @ [''reverb''] \<and>
      set middle = fst ` set effects - {''overdrive'', ''reverb''}"
proof -
  let ?mid = "filter (\<lambda>f. f \<notin> set [''reverb'', ''overdrive'']) (map fst effects)"
  have fk: "fst ` set (fromkeys (fixed_order effects)) = set (fixed_order effects)"
    unfolding fromkeys_def by (simp only: keys_foldl_set) simp
  have sub: "fst ` set effects \<subseteq> fst ` set (fromkeys (fixed_order effects))"
    unfolding fk by (auto simp: fixed_order_def)
  have k1: "map fst (order_effects effects) = map fst (fromkeys (fixed_order effects))"
    unfolding order_effects_def using sub by (rule keys_dict_update_same)
  have "''overdrive'' \<noteq> ''reverb''" "''overdrive'' \<notin> set ?mid" "''reverb'' \<notin> set ?mid"
    by simp_all
  from keys_foldl_first_last[OF this, of "Val PyNone"] obtain middle where
    "map fst (fromkeys (fixed_order effects)) = [''overdrive''] @ middle @ [''reverb'']"
    "set middle = set ?mid"
    unfolding fromkeys_def fixed_order_def by blast
  moreover have "set ?mid = fst ` set effects - {''overdrive'', ''reverb''}" by auto
  ultimately show ?thesis using k1 by auto
qed

lemma map_of_order_effects_missing:
  assumes "name = ''overdrive'' \<or> name = ''reverb''" "name \<notin> fst ` set effects"
  shows "map_of (order_effects effects) name = Some (Val PyNone)"
proof -
  have "name \<in> set (fixed_order effects)" using assms(1) by (auto simp: fixed_order_def)
  then have "map_of (fromkeys (fixed_order effects)) name = Some (Val PyNone)"
    by (simp add: fromkeys_def map_of_foldl_set)
  then show ?thesis using assms(2) by (simp add: order_effects_def map_of_dict_update_other)
qed

lemma effect_chain_valid:
  assumes "list_all (sox_arsenal L) (map fst (cfg_effects cfg))"
  shows "effect_chain L cfg =
           Inr (order_effects (filter (\<lambda>(k, v). k \<in> set (cfg_active cfg)) (cfg_effects cfg)))"
  using assms by (simp add: effect_chain_def validate_reduce_fx_def)

lemma effect_chain_Inr:
  assumes "effect_chain L cfg = Inr chain"
  shows "chain = order_effects (filter (\<lambda>(k, v). k \<in> set (cfg_active cfg)) (cfg_effects cfg))"
  using assms by (auto simp: effect_chain_def validate_reduce_fx_def split: if_splits)

text \<open>
  C5.  Whenever every configured effect name is a method of the transformer, so that
  the validation passes, \<open>augment_data\<close> builds a chain whose first key is
  \<open>overdrive\<close> and whose last key is \<open>reverb\<close>, with the other active effects between
  them, whatever the order of the configured mapping and of the active list.
\<close>

theorem effect_chain_order:
  assumes "list_all (sox_arsenal L) (map fst (cfg_effects cfg))"
  shows "\<exists>chain middle. effect_chain L cfg = Inr chain \<and>
           map fst chain = [''overdrive''] @ middle @ [''reverb''] \<and>
           set middle = (fst ` set (cfg_effects cfg) \<inter> set (cfg_active cfg))
                          - {''overdrive'', ''reverb''} \<and>
           hd (map fst chain) = ''overdrive'' \<and> last (map fst chain) = ''reverb''"
proof -
  let ?e = "filter (\<lambda>(k, v). k \<in> set (cfg_active cfg)) (cfg_effects cfg)"
  obtain middle where m: "map fst (order_effects ?e) = [''overdrive''] @ middle @ [''reverb'']"
      "set middle = fst ` set ?e - {''overdrive'', ''reverb''}"
    using keys_order_effects by blast
  have "fst ` set ?e = fst ` set (cfg_effects cfg) \<inter> set (cfg_active cfg)"
    by force
  with m effect_chain_valid[OF assms] show ?thesis by auto
qed

lemma demo_valid: "list_all (sox_arsenal demo_libs) (map fst (cfg_effects demo_config))"
  by (simp add: demo_config_def demo_libs_def sox_arsenal_def)

lemma demo_chain:
  "effect_chain demo_libs demo_config =
     Inr [(''overdrive'', Dict [(''gain_db'',
              Dict [(''state'', Val (PyStr ''random'')), (''lower'', Val (PyInt 5)),
                    (''upper'', Val (PyInt 30))])]),
          (''compand'', Dict [(''attack_time'',
              Dict [(''state'', Val (PyStr ''constant'')), (''default'', Val (PyBool False)),
                    (''upper'', Val (PyFloat (1 / 2)))])]),
          (''reverb'', Dict [(''reverberance'',
              Dict [(''state'', Val (PyStr ''constant'')), (''default'', Val (PyBool True))])])]"
  by code_simp

theorem effect_chain_order_witness:
  "\<exists>chain. effect_chain demo_libs demo_config = Inr chain \<and>
      map fst chain = [''overdrive'', ''compand'', ''reverb''] \<and>
      hd (map fst chain) = ''overdrive'' \<and> last (map fst chain) = ''reverb''"
proof -
  from effect_chain_order[OF demo_valid] obtain chain where
    c: "effect_chain demo_libs demo_config = Inr chain"
       "hd (map fst chain) = ''overdrive''" "last (map fst chain) = ''reverb''"
    by blast
  from c(1) have m: "map fst chain = [''overdrive'', ''compand'', ''reverb'']"
    unfolding demo_chain by auto
  show ?thesis by (rule exI[of _ chain]) (intro conjI c m)
qed

section \<open>The loop over the effects\<close>

lemma np_mean_axis0_zeros: "np_mean_axis0 (np_zeros (r, c)) = replicate c 0"
proof -
  have "sum_list (map (\<lambda>row. row ! j) (replicate r (replicate c (0::real)))) / real r = 0"
    if "j < c" for j
    using that by (simp add: sum_list_replicate)
  then show ?thesis
    by (simp add: np_mean_axis0_def np_zeros_def list_eq_iff_nth_eq)
qed

lemma feature_pipeline_shape_only:
  "feature_pipeline mfcc_shape_only arr = replicate (1 + length arr div 512) 0"
  by (simp add: feature_pipeline_def mfcc_shape_only_def np_mean_axis0_zeros)

lemma apply_effects_append:
  "apply_effects L R ex sus (es1 @ es2) fx labels g =
     (case apply_effects L R ex sus es1 fx labels g of
        (Inl e, g') \<Rightarrow> (Inl e, g')
      | (Inr (fx', labels'), g') \<Rightarrow> apply_effects L R ex sus es2 fx' labels' g')"
proof (induction es1 arbitrary: fx labels g)
  case Nil
  then show ?case by simp
next
  case (Cons x es1)
  obtain effect parameters where x: "x = (effect, parameters)" by (cases x)
  show ?case unfolding x
    by (simp add: Cons.IH split: sum.splits prod.splits)
qed

lemma apply_effect_None:
  "apply_effect L R name (Val v) fx labels g
     = (Inl (case fx_lookup L name of Inl e \<Rightarrow> e | Inr d \<Rightarrow> AttributeError), g)"
  by (simp add: apply_effect_def split: sum.splits)

lemma apply_effects_reach_Val:
  assumes "apply_effects L R exercise sustain pre [] [] g = (Inr (fx1, labels1), g1)"
  shows "apply_effects L R exercise sustain (pre @ (name, Val v) # post) [] [] g =
     (if py_lower exercise = ''classification'' \<and> name \<notin> set sustain
      then (if fst (choice_True_False R g1)
            then (Inl (case fx_lookup L name of Inl e \<Rightarrow> e | Inr d \<Rightarrow> AttributeError),
                  snd (choice_True_False R g1))
            else apply_effects L R exercise sustain post fx1 labels1 (snd (choice_True_False R g1)))
      else (Inl (case fx_lookup L name of Inl e \<Rightarrow> e | Inr d \<Rightarrow> AttributeError), g1))"
  by (simp add: apply_effects_append assms apply_effect_None split: prod.splits)

lemma map_of_split:
  "map_of xs k = Some v \<Longrightarrow> \<exists>pre post. xs = pre @ (k, v) # post \<and> k \<notin> fst ` set pre"
proof (induction xs)
  case Nil
  then show ?case by simp
next
  case (Cons x xs)
  obtain a b where x: "x = (a, b)" by (cases x)
  show ?case
  proof (cases "a = k")
    case True
    with Cons.prems x have "x # xs = [] @ (k, v) # xs" by simp
    then show ?thesis by (intro exI[of _ "[]"] exI[of _ xs]) simp
  next
    case False
    with Cons.prems x have "map_of xs k = Some v" by simp
    from Cons.IH[OF this] obtain pre post where p: "xs = pre @ (k, v) # post" "k \<notin> fst ` set pre"
      by blast
    with False x have "x # xs = (x # pre) @ (k, v) # post \<and> k \<notin> fst ` set (x # pre)" by auto
    then show ?thesis by blast
  qed
qed

lemma first_key_split:
  assumes "map fst xs = a # rest" "xs = pre @ (a, v) # post" "a \<notin> fst ` set pre"
  shows "pre = []"
  using assms by (cases pre) auto

lemma last_key_split:
  assumes "map fst xs = front @ [b]" "b \<notin> set front" "xs = pre @ (b, v) # post"
  shows "post = []"
proof (rule ccontr)
  assume "post \<noteq> []"
  then obtain post' z where pz: "post = post' @ [z]" by (metis rev_exhaust)
  from assms(1,3) pz have "front @ [b] = (map fst pre @ b # map fst post') @ [fst z]" by simp
  then have "front = map fst pre @ b # map fst post'" by (simp only: append1_eq_conv)
  with assms(2) show False by simp
qed


lemma augment_track_fails:
  assumes "\<exists>e g'. apply_effects L R exercise sustain effects [] [] (gen w) = (Inl e, g')"
  shows "\<exists>e w'. augment_track L R file n effects exercise sustain write w = (Inl e, w')"
  using assms by (auto simp: augment_track_def)

lemma active_keys_subset:
  "fst ` set (filter (\<lambda>(k, v). k \<in> set active) effects) \<subseteq> set active"
  by auto

lemma apply_effects_total_fail:
  assumes "py_lower exercise \<noteq> ''classification'' \<or> name \<in> set sustain"
  shows "\<exists>e g'. apply_effects L R exercise sustain (pre @ (name, Val v) # post) [] [] g = (Inl e, g')"
proof (cases "apply_effects L R exercise sustain pre [] [] g")
  case (Pair r g1)
  show ?thesis
  proof (cases r)
    case (Inl e)
    with Pair show ?thesis by (simp add: apply_effects_append)
  next
    case (Inr p)
    obtain fx1 labels1 where "p = (fx1, labels1)" by (cases p)
    with Pair Inr have "apply_effects L R exercise sustain pre [] [] g = (Inr (fx1, labels1), g1)"
      by simp
    from apply_effects_reach_Val[OF this, of name v post] assms show ?thesis by auto
  qed
qed

section \<open>Effects without a specification\<close>

text \<open>
  C10 as amended.  When \<open>overdrive\<close> or \<open>reverb\<close> is not in the active list, the chain
  still has that name as a key, with \<open>None\<close> as its specification: \<open>overdrive\<close> as its first
  entry, \<open>reverb\<close> as its last.  A call of \<open>augment_track\<close> on that chain in which an
  earlier effect raises fails with that error.  A call that reaches the name fails there,
  with \<open>AttributeError\<close> at \<^verbatim>\<open>parameters.items()\<close> on \<open>None\<close> (or with the error of looking
  the effect up), in every case but one: under the classification policy, with the name
  outside the sustain list, a coin flip that comes up false skips the effect, and the
  loop goes on with the effects after it.  So every call fails under every exercise
  but classification, and under classification when the name is sustained, as both names
  are by default.  A chain in which no specification is \<open>None\<close> has both names in the
  active list.
\<close>

theorem missing_fixed_effect_fails:
  assumes "effect_chain L cfg = Inr chain"
  shows "(\<forall>name \<in> {''overdrive'', ''reverb''}. name \<notin> set (cfg_active cfg) \<longrightarrow>
            map_of chain name = Some (Val PyNone) \<and>
            (\<exists>pre post. chain = pre @ (name, Val PyNone) # post \<and>
               (name = ''overdrive'' \<longrightarrow> pre = []) \<and> (name = ''reverb'' \<longrightarrow> post = []) \<and>
               (\<forall>exercise sustain file n write w e g1.
                  apply_effects L R exercise sustain pre [] [] (gen w) = (Inl e, g1) \<longrightarrow>
                  augment_track L R file n chain exercise sustain write w
                    = (Inl e, w \<lparr> gen := g1 \<rparr>)) \<and>
               (\<forall>exercise sustain file n write w fx1 labels1 g1.
                  apply_effects L R exercise sustain pre [] [] (gen w) = (Inr (fx1, labels1), g1) \<longrightarrow>
                  (if py_lower exercise = ''classification'' \<and> name \<notin> set sustain
                   then (if fst (choice_True_False R g1)
                         then augment_track L R file n chain exercise sustain write w
                                = (Inl (case fx_lookup L name of
                                          Inl e \<Rightarrow> e | Inr d \<Rightarrow> AttributeError),
                                   w \<lparr> gen := snd (choice_True_False R g1) \<rparr>)
                         else apply_effects L R exercise sustain chain [] [] (gen w)
                                = apply_effects L R exercise sustain post fx1 labels1
                                    (snd (choice_True_False R g1)))
                   else augment_track L R file n chain exercise sustain write w
                          = (Inl (case fx_lookup L name of
                                    Inl e \<Rightarrow> e | Inr d \<Rightarrow> AttributeError),
                             w \<lparr> gen := g1 \<rparr>)))) \<and>
            (\<forall>exercise sustain file n write w.
               py_lower exercise \<noteq> ''classification'' \<or> name \<in> set sustain \<longrightarrow>
               (\<exists>e w'. augment_track L R file n chain exercise sustain write w = (Inl e, w'))))
         \<and> (list_all (\<lambda>(k, v). v \<noteq> Val PyNone) chain \<longrightarrow>
               ''overdrive'' \<in> set (cfg_active cfg) \<and> ''reverb'' \<in> set (cfg_active cfg))"
proof -
  let ?e = "filter (\<lambda>(k, v). k \<in> set (cfg_active cfg)) (cfg_effects cfg)"
  have chain: "chain = order_effects ?e" using assms by (rule effect_chain_Inr)
  obtain middle where keys: "map fst chain = [''overdrive''] @ middle @ [''reverb'']"
      and mid: "set middle = fst ` set ?e - {''overdrive'', ''reverb''}"
    unfolding chain using keys_order_effects by blast
  have none: "map_of chain name = Some (Val PyNone)"
    if "name = ''overdrive'' \<or> name = ''reverb''" "name \<notin> set (cfg_active cfg)" for name
  proof -
    from that(2) active_keys_subset[of "cfg_active cfg" "cfg_effects cfg"]
    have "name \<notin> fst ` set ?e" by blast
    with that(1) show ?thesis unfolding chain by (rule map_of_order_effects_missing)
  qed
  have wf: "''overdrive'' \<in> set (cfg_active cfg) \<and> ''reverb'' \<in> set (cfg_active cfg)"
    if all: "list_all (\<lambda>(k, v). v \<noteq> Val PyNone) chain"
  proof -
    have "name \<in> set (cfg_active cfg)" if n: "name = ''overdrive'' \<or> name = ''reverb''" for name
    proof (rule ccontr)
      assume "name \<notin> set (cfg_active cfg)"
      from none[OF n this] have "(name, Val PyNone) \<in> set chain" by (rule map_of_SomeD)
      with all show False by (auto simp: list_all_iff)
    qed
    then show ?thesis by blast
  qed
  have each: "map_of chain name = Some (Val PyNone) \<and>
            (\<exists>pre post. chain = pre @ (name, Val PyNone) # post \<and>
               (name = ''overdrive'' \<longrightarrow> pre = []) \<and> (name = ''reverb'' \<longrightarrow> post = []) \<and>
               (\<forall>exercise sustain file n write w e g1.
                  apply_effects L R exercise sustain pre [] [] (gen w) = (Inl e, g1) \<longrightarrow>
                  augment_track L R file n chain exercise sustain write w
                    = (Inl e, w \<lparr> gen := g1 \<rparr>)) \<and>
               (\<forall>exercise sustain file n write w fx1 labels1 g1.
                  apply_effects L R exercise sustain pre [] [] (gen w) = (Inr (fx1, labels1), g1) \<longrightarrow>
                  (if py_lower exercise = ''classification'' \<and> name \<notin> set sustain
                   then (if fst (choice_True_False R g1)
                         then augment_track L R file n chain exercise sustain write w
                                = (Inl (case fx_lookup L name of
                                          Inl e \<Rightarrow> e | Inr d \<Rightarrow> AttributeError),
                                   w \<lparr> gen := snd (choice_True_False R g1) \<rparr>)
                         else apply_effects L R exercise sustain chain [] [] (gen w)
                                = apply_effects L R exercise sustain post fx1 labels1
                                    (snd (choice_True_False R g1)))
                   else augment_track L R file n chain exercise sustain write w
                          = (Inl (case fx_lookup L name of
                                    Inl e \<Rightarrow> e | Inr d \<Rightarrow> AttributeError),
                             w \<lparr> gen := g1 \<rparr>)))) \<and>
            (\<forall>exercise sustain file n write w.
               py_lower exercise \<noteq> ''classification'' \<or> name \<in> set sustain \<longrightarrow>
               (\<exists>e w'. augment_track L R file n chain exercise sustain write w = (Inl e, w')))"
    if nm: "name = ''overdrive'' \<or> name = ''reverb''" and act: "name \<notin> set (cfg_active cfg)" for name
  proof -
    note m = none[OF nm act]
    from map_of_split[OF m] obtain pre post where
      sp: "chain = pre @ (name, Val PyNone) # post" and fresh: "name \<notin> fst ` set pre"
      by blast
    have first: "pre = []" if "name = ''overdrive''"
      using keys sp fresh that by (intro first_key_split[of chain name _ pre "Val PyNone" post]) simp_all
    have last: "post = []" if "name = ''reverb''"
    proof -
      have "''reverb'' \<notin> set ([''overdrive''] @ middle)" using mid by simp
      with keys sp that show ?thesis
        by (intro last_key_split[of chain "[''overdrive''] @ middle" name pre "Val PyNone" post]) simp_all
    qed
    have early: "augment_track L R fl n chain exercise sustain wr w = (Inl e, w \<lparr> gen := g1 \<rparr>)"
      if "apply_effects L R exercise sustain pre [] [] (gen w) = (Inl e, g1)"
      for exercise sustain fl n wr w e g1
      unfolding sp using that by (simp add: augment_track_def apply_effects_append)
    have reach: "(if py_lower exercise = ''classification'' \<and> name \<notin> set sustain
                   then (if fst (choice_True_False R g1)
                         then augment_track L R fl n chain exercise sustain wr w
                                = (Inl (case fx_lookup L name of
                                          Inl e \<Rightarrow> e | Inr d \<Rightarrow> AttributeError),
                                   w \<lparr> gen := snd (choice_True_False R g1) \<rparr>)
                         else apply_effects L R exercise sustain chain [] [] (gen w)
                                = apply_effects L R exercise sustain post fx1 labels1
                                    (snd (choice_True_False R g1)))
                   else augment_track L R fl n chain exercise sustain wr w
                          = (Inl (case fx_lookup L name of
                                    Inl e \<Rightarrow> e | Inr d \<Rightarrow> AttributeError),
                             w \<lparr> gen := g1 \<rparr>))"
      if "apply_effects L R exercise sustain pre [] [] (gen w) = (Inr (fx1, labels1), g1)"
      for exercise sustain fl n wr w fx1 labels1 g1
      unfolding sp augment_track_def apply_effects_reach_Val[OF that] by simp
    have total: "\<exists>e w'. augment_track L R fl n chain exercise sustain wr w = (Inl e, w')"
      if "py_lower exercise \<noteq> ''classification'' \<or> name \<in> set sustain"
      for exercise sustain fl n wr w
      unfolding sp by (rule augment_track_fails) (rule apply_effects_total_fail[OF that])
    from early have earlyall: "\<forall>exercise sustain file n write w e g1.
                  apply_effects L R exercise sustain pre [] [] (gen w) = (Inl e, g1) \<longrightarrow>
                  augment_track L R file n chain exercise sustain write w
                    = (Inl e, w \<lparr> gen := g1 \<rparr>)"
      by (intro allI impI)
    from reach have reachall: "\<forall>exercise sustain file n write w fx1 labels1 g1.
                  apply_effects L R exercise sustain pre [] [] (gen w) = (Inr (fx1, labels1), g1) \<longrightarrow>
                  (if py_lower exercise = ''classification'' \<and> name \<notin> set sustain
                   then (if fst (choice_True_False R g1)
                         then augment_track L R file n chain exercise sustain write w
                                = (Inl (case fx_lookup L name of
                                          Inl e \<Rightarrow> e | Inr d \<Rightarrow> AttributeError),
                                   w \<lparr> gen := snd (choice_True_False R g1) \<rparr>)
                         else apply_effects L R exercise sustain chain [] [] (gen w)
                                = apply_effects L R exercise sustain post fx1 labels1
                                    (snd (choice_True_False R g1)))
                   else augment_track L R file n chain exercise sustain write w
                          = (Inl (case fx_lookup L name of
                                    Inl e \<Rightarrow> e | Inr d \<Rightarrow> AttributeError),
                             w \<lparr> gen := g1 \<rparr>))"
      by (intro allI impI)
    from total have totalall: "\<forall>exercise sustain file n write w.
               py_lower exercise \<noteq> ''classification'' \<or> name \<in> set sustain \<longrightarrow>
               (\<exists>e w'. augment_track L R file n chain exercise sustain write w = (Inl e, w'))"
      by (intro allI impI)
    from first have f: "name = ''overdrive'' \<longrightarrow> pre = []" by (rule impI)
    from last have l: "name = ''reverb'' \<longrightarrow> post = []" by (rule impI)
    note inner = conjI[OF sp conjI[OF f conjI[OF l conjI[OF earlyall reachall]]]]
    have ex: "\<exists>pre post. chain = pre @ (name, Val PyNone) # post \<and>
               (name = ''overdrive'' \<longrightarrow> pre = []) \<and> (name = ''reverb'' \<longrightarrow> post = []) \<and>
               (\<forall>exercise sustain file n write w e g1.
                  apply_effects L R exercise sustain pre [] [] (gen w) = (Inl e, g1) \<longrightarrow>
                  augment_track L R file n chain exercise sustain write w
                    = (Inl e, w \<lparr> gen := g1 \<rparr>)) \<and>
               (\<forall>exercise sustain file n write w fx1 labels1 g1.
                  apply_effects L R exercise sustain pre [] [] (gen w) = (Inr (fx1, labels1), g1) \<longrightarrow>
                  (if py_lower exercise = ''classification'' \<and> name \<notin> set sustain
                   then (if fst (choice_True_False R g1)
                         then augment_track L R file n chain exercise sustain write w
                                = (Inl (case fx_lookup L name of
                                          Inl e \<Rightarrow> e | Inr d \<Rightarrow> AttributeError),
                                   w \<lparr> gen := snd (choice_True_False R g1) \<rparr>)
                         else apply_effects L R exercise sustain chain [] [] (gen w)
                                = apply_effects L R exercise sustain post fx1 labels1
                                    (snd (choice_True_False R g1)))
                   else augment_track L R file n chain exercise sustain write w
                          = (Inl (case fx_lookup L name of
                                    Inl e \<Rightarrow> e | Inr d \<Rightarrow> AttributeError),
                             w \<lparr> gen := g1 \<rparr>)))"
      by (intro exI) (rule inner)
    show ?thesis by (rule conjI[OF m conjI[OF ex totalall]])
  qed
  have wfi: "list_all (\<lambda>(k, v). v \<noteq> Val PyNone) chain \<longrightarrow>
               ''overdrive'' \<in> set (cfg_active cfg) \<and> ''reverb'' \<in> set (cfg_active cfg)"
    using wf by (rule impI)
  show ?thesis
  proof (rule conjI[OF _ wfi], rule ballI, rule impI)
    fix name :: string
    assume "name \<in> {''overdrive'', ''reverb''}" "name \<notin> set (cfg_active cfg)"
    then show "map_of chain name = Some (Val PyNone) \<and>
            (\<exists>pre post. chain = pre @ (name, Val PyNone) # post \<and>
               (name = ''overdrive'' \<longrightarrow> pre = []) \<and> (name = ''reverb'' \<longrightarrow> post = []) \<and>
               (\<forall>exercise sustain file n write w e g1.
                  apply_effects L R exercise sustain pre [] [] (gen w) = (Inl e, g1) \<longrightarrow>
                  augment_track L R file n chain exercise sustain write w
                    = (Inl e, w \<lparr> gen := g1 \<rparr>)) \<and>
               (\<forall>exercise sustain file n write w fx1 labels1 g1.
                  apply_effects L R exercise sustain pre [] [] (gen w) = (Inr (fx1, labels1), g1) \<longrightarrow>
                  (if py_lower exercise = ''classification'' \<and> name \<notin> set sustain
                   then (if fst (choice_True_False R g1)
                         then augment_track L R file n chain exercise sustain write w
                                = (Inl (case fx_lookup L name of
                                          Inl e \<Rightarrow> e | Inr d \<Rightarrow> AttributeError),
                                   w \<lparr> gen := snd (choice_True_False R g1) \<rparr>)
                         else apply_effects L R exercise sustain chain [] [] (gen w)
                                = apply_effects L R exercise sustain post fx1 labels1
                                    (snd (choice_True_False R g1)))
                   else augment_track L R file n chain exercise sustain write w
                          = (Inl (case fx_lookup L name of
                                    Inl e \<Rightarrow> e | Inr d \<Rightarrow> AttributeError),
                             w \<lparr> gen := g1 \<rparr>)))) \<and>
            (\<forall>exercise sustain file n write w.
               py_lower exercise \<noteq> ''classification'' \<or> name \<in> set sustain \<longrightarrow>
               (\<exists>e w'. augment_track L R file n chain exercise sustain write w = (Inl e, w')))"
      by (intro each) simp_all
  qed
qed


lemma reverb_only_chain:
  "effect_chain demo_libs reverb_only =
     Inr [(''overdrive'', Val PyNone),
          (''reverb'', Dict [(''reverberance'',
              Dict [(''state'', Val (PyStr ''constant'')), (''default'', Val (PyBool True))])])]"
  by code_simp

text \<open>
  C10.  The claim: with \<open>overdrive\<close> or \<open>reverb\<close> missing from the active list, the call
  of \<open>augment_track\<close> that follows fails.  With \<open>reverb\<close> as the only active effect, the
  classification policy and \<open>reverb\<close> as the only sustained effect, a call that starts
  with the generator in state 1 flips false for \<open>overdrive\<close>, skips it, applies \<open>reverb\<close>
  and returns its labels and features.
\<close>

theorem missing_overdrive_skipped:
  "''overdrive'' \<notin> set (cfg_active reverb_only) \<and>
   effect_chain demo_libs reverb_only =
     Inr [(''overdrive'', Val PyNone),
          (''reverb'', Dict [(''reverberance'',
              Dict [(''state'', Val (PyStr ''constant'')), (''default'', Val (PyBool True))])])] \<and>
   augment_track demo_libs counter_rng ''guitar/strat/chords/Am.wav'' 0
     [(''overdrive'', Val PyNone),
      (''reverb'', Dict [(''reverberance'',
          Dict [(''state'', Val (PyStr ''constant'')), (''default'', Val (PyBool True))])])]
     ''classification'' [''reverb''] None (demo_world \<lparr> gen := 1 \<rparr>)
   = (Inr ([(''reverb.reverberance'', Val (PyFloat 50)), (''group'', Val (PyInt 0))], [0]),
      demo_world \<lparr> gen := 2 \<rparr>)"
proof -
  have a: "''overdrive'' \<notin> set (cfg_active reverb_only)" by (simp add: reverb_only_def)
  have t: "augment_track demo_libs counter_rng ''guitar/strat/chords/Am.wav'' 0
     [(''overdrive'', Val PyNone),
      (''reverb'', Dict [(''reverberance'',
          Dict [(''state'', Val (PyStr ''constant'')), (''default'', Val (PyBool True))])])]
     ''classification'' [''reverb''] None (demo_world \<lparr> gen := 1 \<rparr>)
   = (Inr ([(''reverb.reverberance'', Val (PyFloat 50)), (''group'', Val (PyInt 0))], [0]),
      demo_world \<lparr> gen := 2 \<rparr>)"
    by (simp add: augment_track_def apply_effect_def demo_libs_def demo_world_def py_lower_def
          choice_True_False_def counter_rng_def write_track_def flatten_def dict_get_def
          defaults_get_def feature_pipeline_shape_only)
  show ?thesis by (rule conjI[OF a conjI[OF reverb_only_chain t]])
qed

theorem missing_fixed_effect_fails_witness:
  "\<exists>chain. effect_chain demo_libs reverb_only = Inr chain \<and>
     map_of chain ''overdrive'' = Some (Val PyNone) \<and>
     augment_track demo_libs counter_rng ''guitar/strat/chords/Am.wav'' 0 chain
       ''classification'' [''reverb''] None demo_world
       = (Inl AttributeError, demo_world \<lparr> gen := 1 \<rparr>) \<and>
     augment_track demo_libs counter_rng ''guitar/strat/chords/Am.wav'' 0 chain
       ''regression'' [''overdrive'', ''reverb''] None demo_world
       = (Inl AttributeError, demo_world)"
proof -
  let ?chain = "[(''overdrive'', Val PyNone),
          (''reverb'', Dict [(''reverberance'',
              Dict [(''state'', Val (PyStr ''constant'')), (''default'', Val (PyBool True))])])]"
  have a: "''overdrive'' \<notin> set (cfg_active reverb_only)"
    by (simp add: reverb_only_def)
  from missing_fixed_effect_fails[OF reverb_only_chain, of counter_rng] a
  obtain pre post where
    m: "map_of ?chain ''overdrive'' = Some (Val PyNone)" and
    p: "pre = []" and
    r: "\<forall>exercise sustain file n write w fx1 labels1 g1.
          apply_effects demo_libs counter_rng exercise sustain pre [] [] (gen w) = (Inr (fx1, labels1), g1) \<longrightarrow>
          (if py_lower exercise = ''classification'' \<and> ''overdrive'' \<notin> set sustain
           then (if fst (choice_True_False counter_rng g1)
                 then augment_track demo_libs counter_rng file n ?chain exercise sustain write w
                        = (Inl (case fx_lookup demo_libs ''overdrive'' of
                                  Inl e \<Rightarrow> e | Inr d \<Rightarrow> AttributeError),
                           w \<lparr> gen := snd (choice_True_False counter_rng g1) \<rparr>)
                 else apply_effects demo_libs counter_rng exercise sustain ?chain [] [] (gen w)
                        = apply_effects demo_libs counter_rng exercise sustain post fx1 labels1
                            (snd (choice_True_False counter_rng g1)))
           else augment_track demo_libs counter_rng file n ?chain exercise sustain write w
                  = (Inl (case fx_lookup demo_libs ''overdrive'' of
                            Inl e \<Rightarrow> e | Inr d \<Rightarrow> AttributeError),
                     w \<lparr> gen := g1 \<rparr>))"
    by auto
  have l: "fx_lookup demo_libs ''overdrive'' = Inr [(''gain_db'', PyFloat 20), (''colour'', PyFloat 20)]"
    by (simp add: demo_libs_def)
  have s: "apply_effects demo_libs counter_rng exercise sustain pre [] [] (gen demo_world)
             = (Inr ([], []), 0)" for exercise sustain
    unfolding p by (simp add: demo_world_def)
  have c: "fst (choice_True_False counter_rng 0)" "snd (choice_True_False counter_rng 0) = 1"
    by (simp_all add: choice_True_False_def counter_rng_def)
  have w0: "demo_world \<lparr> gen := 0 \<rparr> = demo_world" by (simp add: demo_world_def)
  from r[rule_format, OF s, of "''classification''" "[''reverb'']"] c l
  have t1: "augment_track demo_libs counter_rng ''guitar/strat/chords/Am.wav'' 0 ?chain
       ''classification'' [''reverb''] None demo_world
       = (Inl AttributeError, demo_world \<lparr> gen := 1 \<rparr>)"
    by (simp add: py_lower_def)
  from r[rule_format, OF s, of "''regression''" "[''overdrive'', ''reverb'']"] l w0
  have t2: "augment_track demo_libs counter_rng ''guitar/strat/chords/Am.wav'' 0 ?chain
       ''regression'' [''overdrive'', ''reverb''] None demo_world
       = (Inl AttributeError, demo_world)"
    by simp
  note full = conjI[OF reverb_only_chain conjI[OF m conjI[OF t1 t2]]]
  show ?thesis by (rule exI[of _ ?chain]) (rule full)
qed

section \<open>Random parameters with invalid bounds\<close>

lemma py_lt_num_num:
  "py_num x = Some a \<Longrightarrow> py_num y = Some b \<Longrightarrow> py_lt x y = Inr (a < b)"
  by (cases x; cases y) auto

lemma resolve_parameters_append:
  "resolve_parameters R fd (ps1 @ ps2) used g =
     (case resolve_parameters R fd ps1 used g of
        (Inl e, g') \<Rightarrow> (Inl e, g')
      | (Inr used', g') \<Rightarrow> resolve_parameters R fd ps2 used' g')"
proof (induction R fd ps1 used g rule: resolve_parameters.induct)
  case (1 R f_defaults used g)
  then show ?case by simp
next
  case (2 R f_defaults param v ps used g)
  then show ?case by simp
next
  case (3 R f_defaults param val ps used g)
  then show ?case
    by (auto simp: Let_def split: sum.splits prod.splits pyobj.splits)
qed

lemma resolve_random_bad_bounds:
  assumes "dict_get val ''state'' = Val (PyStr ''random'')"
      and "dict_get val ''lower'' = Val lo" "dict_get val ''upper'' = Val up"
      and "py_num lo = Some a" "py_num up = Some b" "b \<le> a"
  shows "resolve_parameters R fd ((param, Dict val) # ps) used g =
           (Inl (if is_list (defaults_get fd param) then TypeError else AssertionError), g)"
  using assms by (simp add: py_gt_def py_lt_num_num)

text \<open>
  C7 as amended.  Let a parameter with state \<open>random\<close> have numeric bounds with the upper
  not above the lower, and let \<open>augment_track\<close> reach it: the effects before its effect
  were applied without failure, its effect is not skipped by the classification coin
  flip, the transformer has the effect, and the parameters before it were resolved.
  Then \<open>augment_track\<close> raises \<open>AssertionError\<close> when the library default of the parameter
  is no list, and \<open>TypeError\<close> when it is a list; nothing is realized for the parameter.
\<close>

theorem random_bad_bounds_raise:
  assumes earlier: "apply_effects L R exercise sustain es1 [] [] (gen w) = (Inr (fx1, labels1), g1)"
      and kept: "py_lower exercise = ''classification'' \<and> effect \<notin> set sustain
                   \<longrightarrow> fst (choice_True_False R g1)"
      and g1': "g1' = (if py_lower exercise = ''classification'' \<and> effect \<notin> set sustain
                       then snd (choice_True_False R g1) else g1)"
      and lookup: "fx_lookup L effect = Inr f_defaults"
      and before: "resolve_parameters R f_defaults ps1 [] g1' = (Inr used1, g2)"
      and state: "dict_get val ''state'' = Val (PyStr ''random'')"
      and bounds: "dict_get val ''lower'' = Val lo" "dict_get val ''upper'' = Val up"
                  "py_num lo = Some a" "py_num up = Some b" "b \<le> a"
  shows "augment_track L R file n
           (es1 @ (effect, Dict (ps1 @ (param, Dict val) # ps2)) # es2)
           exercise sustain write w
         = (Inl (if is_list (defaults_get f_defaults param) then TypeError else AssertionError),
            w \<lparr> gen := g2 \<rparr>)"
proof -
  let ?err = "if is_list (defaults_get f_defaults param) then TypeError else AssertionError"
  have params: "resolve_parameters R f_defaults (ps1 @ (param, Dict val) # ps2) [] g1' = (Inl ?err, g2)"
    by (simp only: resolve_parameters_append before prod.case sum.case
          resolve_random_bad_bounds[OF state bounds])
  have body: "apply_effect L R effect (Dict (ps1 @ (param, Dict val) # ps2)) fx1 labels1 g1'
                = (Inl ?err, g2)"
    by (simp add: apply_effect_def lookup params)
  have "apply_effects L R exercise sustain
          ((effect, Dict (ps1 @ (param, Dict val) # ps2)) # es2) fx1 labels1 g1 = (Inl ?err, g2)"
  proof (cases "py_lower exercise = ''classification'' \<and> effect \<notin> set sustain")
    case True
    obtain coin g where c: "choice_True_False R g1 = (coin, g)"
      by (cases "choice_True_False R g1")
    with True kept g1' have "coin" "g = g1'" by auto
    with True c body show ?thesis by simp
  next
    case False
    with g1' have "g1' = g1" by simp
    with False body show ?thesis by auto
  qed
  then have "apply_effects L R exercise sustain
          (es1 @ (effect, Dict (ps1 @ (param, Dict val) # ps2)) # es2) [] [] (gen w) = (Inl ?err, g2)"
    unfolding apply_effects_append earlier by simp
  then show ?thesis by (simp add: augment_track_def)
qed

lemma list_default_TypeError:
  "augment_track demo_libs counter_rng ''guitar/strat/chords/Am.wav'' 0
     [(''compand'', Dict [(''tf_points'', Dict bad_bounds)])]
     ''regression'' [''overdrive'', ''reverb''] None demo_world
   = (Inl TypeError, demo_world)"
  by (simp add: augment_track_def apply_effect_def demo_libs_def demo_world_def bad_bounds_def
        dict_get_def defaults_get_def py_lower_def)

lemma skipped_effect_returns:
  "augment_track demo_libs counter_rng ''guitar/strat/chords/Am.wav'' 0
     [(''compand'', Dict [(''attack_time'', Dict bad_bounds)])]
     ''classification'' [''overdrive'', ''reverb''] None (demo_world \<lparr> gen := 1 \<rparr>)
   = (Inr ([(''group'', Val (PyInt 0))], [0]), demo_world \<lparr> gen := 2 \<rparr>)"
  by (simp add: augment_track_def demo_libs_def demo_world_def py_lower_def
        choice_True_False_def counter_rng_def write_track_def flatten_def
        feature_pipeline_shape_only)

text \<open>
  C7.  The claim: every parameter with state \<open>random\<close> whose upper bound is not above
  its lower bound makes \<open>augment_track\<close> raise the assertion failure.  With lower 5 and
  upper 3: for \<open>tf_points\<close> of \<open>compand\<close>, whose library default is a list, the call raises
  \<open>TypeError\<close>; and under classification an effect outside the sustain list that the coin
  flip skips raises nothing, the call returns its labels and features.
\<close>

theorem random_bad_bounds_other_outcomes:
  "augment_track demo_libs counter_rng ''guitar/strat/chords/Am.wav'' 0
     [(''compand'', Dict [(''tf_points'', Dict bad_bounds)])]
     ''regression'' [''overdrive'', ''reverb''] None demo_world
   = (Inl TypeError, demo_world) \<and>
   augment_track demo_libs counter_rng ''guitar/strat/chords/Am.wav'' 0
     [(''compand'', Dict [(''attack_time'', Dict bad_bounds)])]
     ''classification'' [''overdrive'', ''reverb''] None (demo_world \<lparr> gen := 1 \<rparr>)
   = (Inr ([(''group'', Val (PyInt 0))], [0]), demo_world \<lparr> gen := 2 \<rparr>)"
  using list_default_TypeError skipped_effect_returns by (rule conjI)

theorem random_bad_bounds_raise_witness:
  "augment_track demo_libs counter_rng ''guitar/strat/chords/Am.wav'' 0
     [(''overdrive'', Dict [(''gain_db'', Dict bad_bounds)])]
     ''regression'' [''overdrive'', ''reverb''] None demo_world
   = (Inl AssertionError, demo_world)"
proof -
  have 1: "apply_effects demo_libs counter_rng ''regression'' [''overdrive'', ''reverb''] [] [] []
             (gen demo_world) = (Inr ([], []), 0)"
    by (simp add: demo_world_def)
  have 2: "py_lower ''regression'' = ''classification'' \<and> ''overdrive'' \<notin> set [''overdrive'', ''reverb'']
             \<longrightarrow> fst (choice_True_False counter_rng 0)"
    by simp
  have 3: "(0::nat) = (if py_lower ''regression'' = ''classification'' \<and> ''overdrive'' \<notin> set [''overdrive'', ''reverb'']
               then snd (choice_True_False counter_rng 0) else 0)"
    by simp
  have 4: "fx_lookup demo_libs ''overdrive'' = Inr [(''gain_db'', PyFloat 20), (''colour'', PyFloat 20)]"
    by (simp add: demo_libs_def)
  have 5: "resolve_parameters counter_rng [(''gain_db'', PyFloat 20), (''colour'', PyFloat 20)] [] [] 0
             = (Inr [], 0)"
    by simp
  have 6: "dict_get bad_bounds ''state'' = Val (PyStr ''random'')"
          "dict_get bad_bounds ''lower'' = Val (PyInt 5)" "dict_get bad_bounds ''upper'' = Val (PyInt 3)"
    by (simp_all add: bad_bounds_def dict_get_def)
  have 7: "py_num (PyInt 5) = Some 5" "py_num (PyInt 3) = Some 3" "(3::real) \<le> 5"
    by simp_all
  have 8: "\<not> is_list (defaults_get [(''gain_db'', PyFloat 20), (''colour'', PyFloat 20)] ''gain_db'')"
    by (simp add: defaults_get_def)
  have 9: "demo_world \<lparr> gen := 0 \<rparr> = demo_world" by (simp add: demo_world_def)
  from random_bad_bounds_raise[OF 1 2 3 4 5 6 7, of "''guitar/strat/chords/Am.wav''" 0 "''gain_db''" "[]" "[]" None]
  show ?thesis using 8 9 by simp
qed

section \<open>The confirmation before writing\<close>

lemma int_of_str_examples:
  "int_of_str ''1'' = Inr 1" "int_of_str '' 1'' = Inr 1" "int_of_str ''+1'' = Inr 1"
  "int_of_str ''2'' = Inr 2" "int_of_str ''y'' = Inl ValueError" "int_of_str [] = Inl ValueError"
  "int_of_str [CHR 0x1C, CHR ''1''] = Inl ValueError"
  by (simp_all add: int_of_str_def py_strip_def is_space_def parse_unsigned_def is_digit_def
        digit_value_def)

lemma random_choices_error:
  "random_choices R population k g = (Inl e, g') \<Longrightarrow> e = IndexError"
proof (induction k arbitrary: g)
  case 0
  then show ?case by simp
next
  case (Suc k)
  then show ?case
    by (auto simp: Let_def split: prod.splits sum.splits if_splits)
qed

lemma effect_chain_error: "effect_chain L cfg = Inl e \<Longrightarrow> e = AttributeError"
  by (auto simp: effect_chain_def validate_reduce_fx_def split: if_splits)

text \<open>
  C8.  The claim: at the confirmation prompt the literal \<open>1\<close> lets the run proceed and
  every other input ends it in an orderly way, with no augmented file written.  The code
  prints that prompt and compares \<^verbatim>\<open>int(input())\<close> with 1, but the line before, which
  builds \<open>OUT_DIR\<close>, reads the unbound name \<open>INTERIM_DIR\<close>.  So for every destination that
  counts as true the confirmation raises \<open>NameError\<close> before the prompt is printed or a
  line read, whatever line is waiting: a run that has selected its files and built its
  chain ends there with \<open>NameError\<close>, with \<open>1\<close> as with any other input.  It never
  proceeds and never reaches \<^verbatim>\<open>sys.exit\<close>.  No file is written and no directory made.
\<close>

theorem confirmation_raises_NameError:
  "confirm_write S cfg (Some (c # dest)) source w = (Inl NameError, w) \<and>
   augment_data L R S cfg subsample n_augment (Some (c # dest)) make_training_set source w =
     (case select_files R S subsample (gen w) of
        (Inl e, g') \<Rightarrow> (Inl e, w \<lparr> gen := g' \<rparr>)
      | (Inr train_soundfiles, g') \<Rightarrow>
          (case effect_chain L cfg of
             Inl e \<Rightarrow> (Inl e, w \<lparr> gen := g' \<rparr>)
           | Inr chain \<Rightarrow> (Inl NameError, w \<lparr> gen := g' \<rparr>))) \<and>
   (\<forall>r. fst (augment_data L R S cfg subsample n_augment (Some (c # dest)) make_training_set
              source w) \<noteq> Inr r) \<and>
   (\<forall>code. fst (augment_data L R S cfg subsample n_augment (Some (c # dest)) make_training_set
              source w) \<noteq> Inl (SystemExit code)) \<and>
   files_written (snd (augment_data L R S cfg subsample n_augment (Some (c # dest))
                         make_training_set source w)) = files_written w \<and>
   dirs_made (snd (augment_data L R S cfg subsample n_augment (Some (c # dest))
                     make_training_set source w)) = dirs_made w"
proof -
  have cw: "confirm_write S cfg (Some (c # dest)) source v = (Inl NameError, v)" for v :: "'a world"
    by (simp add: confirm_write_def INTERIM_DIR_def)
  have sel: "e = IndexError" if "select_files R S subsample (gen w) = (Inl e, g')" for e g'
    using that by (auto simp: select_files_def split: option.splits dest: random_choices_error)
  have ch: "e = AttributeError" if "effect_chain L cfg = Inl e" for e
    using that by (rule effect_chain_error)
  have ad: "augment_data L R S cfg subsample n_augment (Some (c # dest)) make_training_set source w =
     (case select_files R S subsample (gen w) of
        (Inl e, g') \<Rightarrow> (Inl e, w \<lparr> gen := g' \<rparr>)
      | (Inr train_soundfiles, g') \<Rightarrow>
          (case effect_chain L cfg of
             Inl e \<Rightarrow> (Inl e, w \<lparr> gen := g' \<rparr>)
           | Inr chain \<Rightarrow> (Inl NameError, w \<lparr> gen := g' \<rparr>)))"
    by (simp add: augment_data_def cw split: prod.splits sum.splits)
  show ?thesis
    unfolding ad using cw[of w] sel ch by (auto split: prod.splits sum.splits)
qed

theorem confirmation_raises_NameError_witness:
  "augment_data demo_libs counter_rng (demo_surroundings ''1'') demo_config None 2 (Some ''fx'')
     False ''power'' demo_world
   = (Inl NameError, demo_world)"
  using confirmation_raises_NameError[of "demo_surroundings ''1''" demo_config "CHR ''f''" "''x''"
      "''power''" demo_world demo_libs counter_rng None 2 False]
  by (simp add: select_files_def demo_chain demo_world_def)

section \<open>Rows of the dataset\<close>

lemma concat_blocks_length:
  "length (concat (map (\<lambda>x. map (g x) [0..<n]) xs)) = length xs * n"
  by (induction xs) simp_all

lemma concat_blocks_nth:
  "i < length xs * n \<Longrightarrow>
   concat (map (\<lambda>x. map (g x) [0..<n]) xs) ! i = g (xs ! (i div n)) (i mod n)"
proof (induction xs arbitrary: i)
  case Nil
  then show ?case by simp
next
  case (Cons x xs)
  show ?case
  proof (cases "i < n")
    case True
    then show ?thesis by (simp add: nth_append)
  next
    case False
    then have ge: "n \<le> i" by simp
    with Cons.prems have "i - n < length xs * n" by simp
    from Cons.IH[OF this] have
      "concat (map (\<lambda>x. map (g x) [0..<n]) xs) ! (i - n) = g (xs ! ((i - n) div n)) ((i - n) mod n)" .
    moreover have pos: "n > 0" using Cons.prems by (cases n) auto
    moreover from ge pos have "i div n = Suc ((i - n) div n)" by (rule le_div_geq[rotated])
    moreover from ge have "i mod n = (i - n) mod n" by (rule le_mod_geq)
    ultimately show ?thesis using False by (simp add: nth_append)
  qed
qed

lemma replicate_as_map: "replicate n m = map (\<lambda>i. m) [0..<n]"
  by (simp add: map_replicate_trivial)

lemma loop_pairs_length: "length (loop_pairs files n) = length files * n"
  unfolding loop_pairs_def by (rule concat_blocks_length)

lemma loop_pairs_nth:
  "i < length files * n \<Longrightarrow> loop_pairs files n ! i = (files ! (i div n), i mod n)"
  unfolding loop_pairs_def by (rule concat_blocks_nth)

lemma repeated_length: "length (concat (map (\<lambda>m. replicate n m) ms)) = length ms * n"
  unfolding replicate_as_map by (rule concat_blocks_length)

lemma repeated_nth:
  "i < length ms * n \<Longrightarrow> concat (map (\<lambda>m. replicate n m) ms) ! i = ms ! (i div n)"
  unfolding replicate_as_map by (rule concat_blocks_nth)

lemma map_raising_length: "map_raising f xs = Inr ys \<Longrightarrow> length ys = length xs"
  by (induction xs arbitrary: ys) (auto split: sum.splits)

lemma map_of_dict_set_same: "map_of (dict_set d k v) k = Some v"
  by (simp add: map_of_dict_set)

lemma augment_track_group:
  "augment_track L R file n effects exercise sustain write w = (Inr (labels, feat), w') \<Longrightarrow>
   map_of labels ''group'' = Some (Val (PyInt n))"
  by (auto simp: augment_track_def Let_def map_of_dict_set split: sum.splits prod.splits)

lemma augment_pairs_results:
  "augment_pairs L R effects exercise sustain write ps w = (Inr store_all, w') \<Longrightarrow>
   length store_all = length ps \<and>
   (\<forall>i < length ps. map_of (fst (store_all ! i)) ''group'' = Some (Val (PyInt (int (snd (ps ! i))))))"
proof (induction ps arbitrary: w store_all)
  case Nil
  then show ?case by simp
next
  case (Cons p ps)
  obtain sf i where p: "p = (sf, i)" by (cases p)
  from Cons.prems p obtain r w1 rs where
    t: "augment_track L R sf (int i) effects exercise sustain write w = (Inr r, w1)" and
    rest: "augment_pairs L R effects exercise sustain write ps w1 = (Inr rs, w')" and
    s: "store_all = r # rs"
    by (auto split: sum.splits prod.splits)
  obtain labels feat where r: "r = (labels, feat)" by (cases r)
  from augment_track_group[OF t[unfolded r]] have g: "map_of (fst r) ''group'' = Some (Val (PyInt (int i)))"
    using r by simp
  from Cons.IH[OF rest] s p g show ?case
    by (auto simp: nth_Cons')
qed

lemma map_raising_nth:
  "map_raising f xs = Inr ys \<Longrightarrow> i < length xs \<Longrightarrow> f (xs ! i) = Inr (ys ! i)"
proof (induction xs arbitrary: ys i)
  case Nil
  then show ?case by simp
next
  case (Cons x xs)
  then show ?case by (cases i) (auto split: sum.splits)
qed

lemma random_choices_length:
  "random_choices R population k g = (Inr xs, g') \<Longrightarrow> length xs = k"
proof (induction k arbitrary: g xs)
  case 0
  then show ?case by simp
next
  case (Suc k)
  then show ?case
    by (auto simp: Let_def split: prod.splits sum.splits if_splits)
qed

lemma map_of_tabulate:
  "map_of (map (\<lambda>c. (c, f c)) cs) k = (if k \<in> set cs then Some (f k) else None)"
  by (induction cs) auto

lemma data_frame_length: "length (data_frame records) = length records"
  by (simp add: data_frame_def Let_def)

lemma data_frame_row:
  assumes "i < length records" "map_of (records ! i) k = Some v"
  shows "map_of (data_frame records ! i) k
           = Some (stored (float_column (column records k)) (Some v))"
proof -
  from assms(2) have "k \<in> fst ` set (records ! i)" by (metis map_of_eq_None_iff option.distinct(1))
  with assms(1) have "k \<in> set (first_seen (concat (map (map fst) records)))"
    by (auto simp: first_seen_def intro!: bexI[of _ "records ! i"])
  with assms show ?thesis
    by (simp add: data_frame_def Let_def map_of_tabulate)
qed

lemma integer_column:
  assumes "\<forall>e \<in> set entries. \<exists>n. e = Some (Val (PyInt n))"
  shows "\<not> float_column entries"
proof -
  have "kind_of e = KInt" if "e \<in> set entries" for e
    using assms that by auto
  then have "set (map kind_of entries) \<subseteq> {KInt}" by auto
  then show ?thesis by (auto simp: float_column_def Let_def)
qed

lemma data_frame_example:
  "data_frame [[(''b'', Val (PyInt 2)), (''a'', Val (PyInt 1)), (''s'', Val PyNone)],
               [(''b'', Val (PyInt 3)), (''c'', Val (PyFloat (1 / 2))), (''s'', Val (PyStr ''x''))]]
   = [[(''b'', Val (PyInt 2)), (''a'', Val (PyFloat 1)), (''s'', Val PyNone),
       (''c'', Val (PyObj ''nan''))],
      [(''b'', Val (PyInt 3)), (''a'', Val (PyObj ''nan'')), (''s'', Val (PyStr ''x'')),
       (''c'', Val (PyFloat (1 / 2)))]]"
  by (simp add: data_frame_def first_seen_def column_def float_column_def)

lemma set_column_length: "length (set_column frame name values) = length frame"
  by (simp add: set_column_def)

lemma set_column_row:
  "i < length frame \<Longrightarrow>
   map_of (set_column frame name values ! i) k =
     (if k = name
      then Some (if i < length values then Val (PyStr (values ! i)) else Val (PyObj ''nan''))
      else map_of (frame ! i) k)"
  by (simp add: set_column_def map_of_dict_set)

lemma dict_get_Some: "map_of d k = Some v \<Longrightarrow> dict_get d k = v"
  by (simp add: dict_get_def)

lemma max_by_first_member:
  "max_by_first ss = Inr m \<Longrightarrow> m \<in> set ss"
  using foldl_max_first by (cases ss) auto

lemma pad_expanded:
  assumes "feats \<noteq> []"
  shows "\<exists>T. pad (map expand_dims1 feats) = Inr (map (\<lambda>x. padded (T, 1) (expand_dims1 x)) feats)"
proof -
  from assms obtain m where m: "max_by_first (map shape (map expand_dims1 feats)) = Inr m"
    by (cases feats) auto
  from max_by_first_member[OF m] have "snd m = 1"
    by (auto simp: shape_def expand_dims1_def)
  then obtain T where T: "m = (T, 1)" by (cases m) auto
  have "\<forall>a \<in> set (map expand_dims1 feats). ncols a \<le> 1"
    by (auto simp: expand_dims1_def)
  from pad_fits[OF m[unfolded T] this] show ?thesis by (auto simp: o_def)
qed

lemma assemble_rows:
  assumes run: "assemble L R S cfg effects write files n mts source w = (Inr (X_train, Y_train), w')"
  shows "\<exists>store_all meta T w1.
      augment_pairs L R effects
        (case cfg_exercise cfg of None \<Rightarrow> ''regression'' | Some e \<Rightarrow> e)
        (case cfg_sustain cfg of None \<Rightarrow> [''overdrive'', ''reverb''] | Some s \<Rightarrow> s)
        write (loop_pairs files n) w = (Inr store_all, w1) \<and>
      map_raising (file_meta source) files = Inr meta \<and>
      length store_all = length files * n \<and>
      length X_train = length files * n \<and>
      length Y_train = length files * n \<and>
      (\<forall>i < length files * n.
          X_train ! i = padded (T, 1) (expand_dims1 (snd (store_all ! i))) \<and>
          (\<forall>k v. k \<noteq> ''model'' \<and> k \<noteq> ''chords'' \<and> map_of (fst (store_all ! i)) k = Some v
                 \<longrightarrow> map_of (Y_train ! i) k
                       = Some (stored (float_column (column (map fst store_all) k)) (Some v))) \<and>
          dict_get (Y_train ! i) ''group'' = Val (PyInt (int (i mod n))) \<and>
          dict_get (Y_train ! i) ''model'' = Val (PyStr (fst (meta ! (i div n)))) \<and>
          dict_get (Y_train ! i) ''chords'' = Val (PyStr (snd (meta ! (i div n)))) \<and>
          file_meta source (files ! (i div n)) = Inr (meta ! (i div n)))"
proof -
  let ?ex = "case cfg_exercise cfg of None \<Rightarrow> ''regression'' | Some e \<Rightarrow> e"
  let ?su = "case cfg_sustain cfg of None \<Rightarrow> [''overdrive'', ''reverb''] | Some s \<Rightarrow> s"
  let ?N = "length files * n"
  obtain r w1 where ap: "augment_pairs L R effects ?ex ?su write (loop_pairs files n) w = (r, w1)"
    by (cases "augment_pairs L R effects ?ex ?su write (loop_pairs files n) w")
  from run ap obtain store_all where r: "r = Inr store_all"
    by (cases r) (auto simp: assemble_def)
  from run ap r have ne: "store_all \<noteq> []"
    by (auto simp: assemble_def split: if_splits)
  let ?labels = "map fst store_all"
  let ?feats = "map snd store_all"
  from ne obtain T where
    pd: "pad (map expand_dims1 ?feats) = Inr (map (\<lambda>x. padded (T, 1) (expand_dims1 x)) ?feats)"
    using pad_expanded[of ?feats] by auto
  obtain mr where mr: "map_raising (file_meta source) files = mr" by simp
  from run ap r ne pd mr obtain meta where meta: "mr = Inr meta"
    by (cases mr) (auto simp: assemble_def Let_def)
  let ?models = "concat (map (\<lambda>m. replicate n m) (map fst meta))"
  let ?chords = "concat (map (\<lambda>m. replicate n m) (map snd meta))"
  from run ap r ne pd mr meta have
    X: "X_train = map (\<lambda>x. padded (T, 1) (expand_dims1 x)) ?feats" and
    Y: "Y_train = set_column (set_column (data_frame ?labels) ''model'' ?models) ''chords'' ?chords"
    by (auto simp: assemble_def Let_def)
  from augment_pairs_results[OF ap[unfolded r]] have
    len: "length store_all = ?N" and
    grp: "\<forall>i < ?N. map_of (fst (store_all ! i)) ''group''
                    = Some (Val (PyInt (int (snd (loop_pairs files n ! i)))))"
    by (simp_all add: loop_pairs_length)
  from mr meta have lm: "length meta = length files"
    by (auto dest: map_raising_length)
  have row: "X_train ! i = padded (T, 1) (expand_dims1 (snd (store_all ! i))) \<and>
          (\<forall>k v. k \<noteq> ''model'' \<and> k \<noteq> ''chords'' \<and> map_of (fst (store_all ! i)) k = Some v
                 \<longrightarrow> map_of (Y_train ! i) k
                       = Some (stored (float_column (column (map fst store_all) k)) (Some v))) \<and>
          dict_get (Y_train ! i) ''group'' = Val (PyInt (int (i mod n))) \<and>
          dict_get (Y_train ! i) ''model'' = Val (PyStr (fst (meta ! (i div n)))) \<and>
          dict_get (Y_train ! i) ''chords'' = Val (PyStr (snd (meta ! (i div n)))) \<and>
          file_meta source (files ! (i div n)) = Inr (meta ! (i div n))"
    if i: "i < ?N" for i
  proof -
    from i have npos: "0 < n" by (cases n) auto
    from i npos have dv: "i div n < length files"
      by (simp add: less_mult_imp_div_less)
    have l1: "i < length (data_frame ?labels)" using i len by (simp add: data_frame_length)
    have l2: "i < length (set_column (data_frame ?labels) ''model'' ?models)"
      using l1 by (simp add: set_column_length)
    have other: "map_of (Y_train ! i) k = map_of (data_frame ?labels ! i) k"
      if "k \<noteq> ''model''" "k \<noteq> ''chords''" for k
      unfolding Y using that l1 l2 by (simp add: set_column_row)
    have keep: "map_of (Y_train ! i) k = Some (stored (float_column (column ?labels k)) (Some v))"
      if "k \<noteq> ''model''" "k \<noteq> ''chords''" "map_of (fst (store_all ! i)) k = Some v" for k v
    proof -
      have "map_of (data_frame ?labels ! i) k
              = Some (stored (float_column (column ?labels k)) (Some v))"
        by (rule data_frame_row) (use i len that(3) in simp_all)
      with other[OF that(1,2)] show ?thesis by simp
    qed
    have "\<forall>e \<in> set (column ?labels ''group''). \<exists>m. e = Some (Val (PyInt m))"
    proof
      fix e assume "e \<in> set (column ?labels ''group'')"
      then obtain j where j: "j < length store_all" "e = map_of (fst (store_all ! j)) ''group''"
        by (auto simp: column_def in_set_conv_nth)
      with grp len show "\<exists>m. e = Some (Val (PyInt m))" by simp
    qed
    then have ints: "\<not> float_column (column ?labels ''group'')" by (rule integer_column)
    have "map_of (fst (store_all ! i)) ''group'' = Some (Val (PyInt (int (i mod n))))"
      using grp i by (simp add: loop_pairs_nth)
    then have "map_of (Y_train ! i) ''group''
                 = Some (stored (float_column (column ?labels ''group''))
                           (Some (Val (PyInt (int (i mod n))))))"
      by (intro keep) simp_all
    with ints have "map_of (Y_train ! i) ''group'' = Some (Val (PyInt (int (i mod n))))"
      by simp
    then have g: "dict_get (Y_train ! i) ''group'' = Val (PyInt (int (i mod n)))"
      by (rule dict_get_Some)
    have im: "i < length ?models" "i < length ?chords"
      using i lm repeated_length[of n "map fst meta"] repeated_length[of n "map snd meta"]
      by simp_all
    have "map_of (Y_train ! i) ''model'' = Some (Val (PyStr (?models ! i)))"
      unfolding Y using l1 l2 im by (simp add: set_column_row)
    moreover have "?models ! i = fst (meta ! (i div n))"
      using i lm dv repeated_nth[of i "map fst meta" n] by simp
    ultimately have m: "dict_get (Y_train ! i) ''model'' = Val (PyStr (fst (meta ! (i div n))))"
      by (simp add: dict_get_Some)
    have "map_of (Y_train ! i) ''chords'' = Some (Val (PyStr (?chords ! i)))"
      unfolding Y using l2 im by (simp add: set_column_row)
    moreover have "?chords ! i = snd (meta ! (i div n))"
      using i lm dv repeated_nth[of i "map snd meta" n] by simp
    ultimately have c: "dict_get (Y_train ! i) ''chords'' = Val (PyStr (snd (meta ! (i div n))))"
      by (simp add: dict_get_Some)
    have fm: "file_meta source (files ! (i div n)) = Inr (meta ! (i div n))"
      using mr meta dv by (auto intro: map_raising_nth)
    have x: "X_train ! i = padded (T, 1) (expand_dims1 (snd (store_all ! i)))"
      unfolding X using i len by simp
    have keepall: "\<forall>k v. k \<noteq> ''model'' \<and> k \<noteq> ''chords'' \<and> map_of (fst (store_all ! i)) k = Some v
                 \<longrightarrow> map_of (Y_train ! i) k
                       = Some (stored (float_column (column (map fst store_all) k)) (Some v))"
      using keep by (intro allI impI) (elim conjE)
    show ?thesis by (rule conjI[OF x conjI[OF keepall conjI[OF g conjI[OF m conjI[OF c fm]]]]])
  qed
  have lx: "length X_train = ?N" unfolding X using len by simp
  have ly: "length Y_train = ?N" unfolding Y using len
    by (simp add: set_column_length data_frame_length)
  have rowall: "\<forall>i < ?N.
          X_train ! i = padded (T, 1) (expand_dims1 (snd (store_all ! i))) \<and>
          (\<forall>k v. k \<noteq> ''model'' \<and> k \<noteq> ''chords'' \<and> map_of (fst (store_all ! i)) k = Some v
                 \<longrightarrow> map_of (Y_train ! i) k
                       = Some (stored (float_column (column (map fst store_all) k)) (Some v))) \<and>
          dict_get (Y_train ! i) ''group'' = Val (PyInt (int (i mod n))) \<and>
          dict_get (Y_train ! i) ''model'' = Val (PyStr (fst (meta ! (i div n)))) \<and>
          dict_get (Y_train ! i) ''chords'' = Val (PyStr (snd (meta ! (i div n)))) \<and>
          file_meta source (files ! (i div n)) = Inr (meta ! (i div n))"
    using row by (intro allI impI)
  note full = conjI[OF ap[unfolded r] conjI[OF mr[unfolded meta] conjI[OF len conjI[OF lx conjI[OF ly rowall]]]]]
  show ?thesis by (intro exI) (rule full)
qed

text \<open>
  C4.  Every run of \<open>augment_data\<close> that returns a feature tensor and a label table, over
  the \<open>F\<close> files selected (all files found, or the \<open>k\<close> files a subsample draws) and with
  repetition count \<open>n_augment\<close>, returns \<open>F * n_augment\<close> rows in both.  Row \<open>i\<close> of both
  comes from call \<open>i\<close> of \<open>augment_track\<close>: the tensor holds the zero-padded features of
  that call, the table its labels, each as its column stores it (in a column of floats
  an integer is held as a float and \<open>None\<close> as NaN; every other value is held as it is).
  The \<open>group\<close> column is a column of integers: the \<open>group\<close> of row \<open>i\<close> is \<open>i mod n_augment\<close>, so each
  block of \<open>n_augment\<close> rows carries \<open>0, ..., n_augment - 1\<close> in order, and its \<open>model\<close> and
  \<open>chords\<close> are those parsed from the path of file \<open>i div n_augment\<close>, so each file's
  values fill \<open>n_augment\<close> consecutive rows.
\<close>

theorem augment_data_rows:
  assumes run: "augment_data L R S cfg subsample n_augment write_with_effects_to
                  make_training_set source w = (Inr (X_train, Y_train), w')"
  shows "\<exists>train_soundfiles g' chain write w0 store_all meta T w1.
      select_files R S subsample (gen w) = (Inr train_soundfiles, g') \<and>
      (subsample = None \<longrightarrow> train_soundfiles = glob_wav S) \<and>
      (\<forall>k. subsample = Some k \<longrightarrow> length train_soundfiles = k) \<and>
      effect_chain L cfg = Inr chain \<and>
      augment_pairs L R chain
        (case cfg_exercise cfg of None \<Rightarrow> ''regression'' | Some e \<Rightarrow> e)
        (case cfg_sustain cfg of None \<Rightarrow> [''overdrive'', ''reverb''] | Some s \<Rightarrow> s)
        write (loop_pairs train_soundfiles n_augment) w0 = (Inr store_all, w1) \<and>
      map_raising (file_meta source) train_soundfiles = Inr meta \<and>
      length store_all = length train_soundfiles * n_augment \<and>
      length X_train = length train_soundfiles * n_augment \<and>
      length Y_train = length train_soundfiles * n_augment \<and>
      (\<forall>i < length train_soundfiles * n_augment.
          X_train ! i = padded (T, 1) (expand_dims1 (snd (store_all ! i))) \<and>
          (\<forall>k v. k \<noteq> ''model'' \<and> k \<noteq> ''chords'' \<and> map_of (fst (store_all ! i)) k = Some v
                 \<longrightarrow> map_of (Y_train ! i) k
                       = Some (stored (float_column (column (map fst store_all) k)) (Some v))) \<and>
          dict_get (Y_train ! i) ''group'' = Val (PyInt (int (i mod n_augment))) \<and>
          dict_get (Y_train ! i) ''model'' = Val (PyStr (fst (meta ! (i div n_augment)))) \<and>
          dict_get (Y_train ! i) ''chords'' = Val (PyStr (snd (meta ! (i div n_augment)))) \<and>
          file_meta source (train_soundfiles ! (i div n_augment)) = Inr (meta ! (i div n_augment)))"
proof -
  obtain sel g' where sf: "select_files R S subsample (gen w) = (sel, g')"
    by (cases "select_files R S subsample (gen w)")
  from run sf obtain files where sel: "sel = Inr files"
    by (cases sel) (auto simp: augment_data_def)
  from run sf sel obtain chain where chain: "effect_chain L cfg = Inr chain"
    by (cases "effect_chain L cfg") (auto simp: augment_data_def)
  obtain cw w0 where cw: "confirm_write S cfg write_with_effects_to source (w \<lparr> gen := g' \<rparr>) = (cw, w0)"
    by (cases "confirm_write S cfg write_with_effects_to source (w \<lparr> gen := g' \<rparr>)")
  from run sf sel chain cw obtain wdest where wr: "cw = Inr wdest"
    by (cases cw) (auto simp: augment_data_def)
  from run sf sel chain cw wr have
    asm: "assemble L R S cfg chain wdest files n_augment make_training_set source w0
            = (Inr (X_train, Y_train), w')"
    by (simp add: augment_data_def)
  have none: "subsample = None \<longrightarrow> files = glob_wav S"
    using sf sel by (auto simp: select_files_def)
  have some: "\<forall>k. subsample = Some k \<longrightarrow> length files = k"
    using sf sel by (auto simp: select_files_def dest: random_choices_length)
  from assemble_rows[OF asm] obtain store_all meta T w1 where
    rows: "augment_pairs L R chain
        (case cfg_exercise cfg of None \<Rightarrow> ''regression'' | Some e \<Rightarrow> e)
        (case cfg_sustain cfg of None \<Rightarrow> [''overdrive'', ''reverb''] | Some s \<Rightarrow> s)
        wdest (loop_pairs files n_augment) w0 = (Inr store_all, w1) \<and>
      map_raising (file_meta source) files = Inr meta \<and>
      length store_all = length files * n_augment \<and>
      length X_train = length files * n_augment \<and>
      length Y_train = length files * n_augment \<and>
      (\<forall>i < length files * n_augment.
          X_train ! i = padded (T, 1) (expand_dims1 (snd (store_all ! i))) \<and>
          (\<forall>k v. k \<noteq> ''model'' \<and> k \<noteq> ''chords'' \<and> map_of (fst (store_all ! i)) k = Some v
                 \<longrightarrow> map_of (Y_train ! i) k
                       = Some (stored (float_column (column (map fst store_all) k)) (Some v))) \<and>
          dict_get (Y_train ! i) ''group'' = Val (PyInt (int (i mod n_augment))) \<and>
          dict_get (Y_train ! i) ''model'' = Val (PyStr (fst (meta ! (i div n_augment)))) \<and>
          dict_get (Y_train ! i) ''chords'' = Val (PyStr (snd (meta ! (i div n_augment)))) \<and>
          file_meta source (files ! (i div n_augment)) = Inr (meta ! (i div n_augment)))"
    by (elim exE) (rule that)
  note full = conjI[OF sf[unfolded sel] conjI[OF none conjI[OF some conjI[OF chain rows]]]]
  show ?thesis by (intro exI) (rule full)
qed

lemma scenario_chain: "effect_chain demo_libs scenario_config = Inr (cfg_effects scenario_config)"
  by code_simp

lemma scenario_track:
  "augment_track demo_libs R file n (cfg_effects scenario_config) ''regression''
     [''overdrive'', ''reverb''] None w
   = (Inr ([(''overdrive.gain_db'', Val (PyFloat 20)), (''reverb.reverberance'', Val (PyFloat 50)),
            (''group'', Val (PyInt n))], [0]), w)"
  by (simp add: augment_track_def scenario_config_def apply_effect_def demo_libs_def py_lower_def
        dict_get_def defaults_get_def write_track_def flatten_def feature_pipeline_shape_only)

lemma scenario_meta:
  "map_raising (file_meta ''power'') [''guitar/strat/Am.wav'', ''guitar/strat/C7.wav'']
     = Inr [(''strat'', ''Am''), (''strat'', ''C7'')]"
  by (simp add: file_meta_def gt_def py_index_def py_rstrip_def)

lemma loop_pairs_2_2: "loop_pairs [a, b] 2 = [(a, 0), (a, 1), (b, 0), (b, 1)]"
  by (simp add: loop_pairs_def numeral_2_eq_2)

lemma scenario_pairs:
  "augment_pairs demo_libs counter_rng (cfg_effects scenario_config) ''regression''
     [''overdrive'', ''reverb''] None
     (loop_pairs [''guitar/strat/Am.wav'', ''guitar/strat/C7.wav''] 2) w
   = (Inr (map (\<lambda>n. ([(''overdrive.gain_db'', Val (PyFloat 20)),
                       (''reverb.reverberance'', Val (PyFloat 50)),
                       (''group'', Val (PyInt n))], [0])) [0, 1, 0, 1]), w)"
  by (simp add: loop_pairs_2_2 scenario_track)

lemma scenario_pad:
  "pad (map expand_dims1 [[0], [0], [0], [0]])
     = Inr (replicate 4 \<lparr> nrows = 1, ncols = 1, cells = [[0]] \<rparr>)"
  by (simp add: pad_def expand_dims1_def shape_def padder_def setitem_topleft_def Let_def
        np_zeros_def cell_def numeral_eq_Suc)

lemma scenario_fields:
  "cfg_exercise scenario_config = Some ''regression''" "cfg_sustain scenario_config = None"
  "cfg_write scenario_config = None"
  by (simp_all add: scenario_config_def)

lemma scenario_frame:
  "set_column (set_column
     (data_frame (map (\<lambda>n. [(''overdrive.gain_db'', Val (PyFloat 20)),
                       (''reverb.reverberance'', Val (PyFloat 50)),
                       (''group'', Val (PyInt n))]) [0, 1, 0, 1]))
     ''model'' (concat (map (\<lambda>m. replicate 2 m) [''strat'', ''strat''])))
     ''chords'' (concat (map (\<lambda>m. replicate 2 m) [''Am'', ''C7'']))
   = map (\<lambda>(n, c). [(''overdrive.gain_db'', Val (PyFloat 20)),
                       (''reverb.reverberance'', Val (PyFloat 50)),
                       (''group'', Val (PyInt n)), (''model'', Val (PyStr ''strat'')),
                       (''chords'', Val (PyStr c))])
       [(0, ''Am''), (1, ''Am''), (0, ''C7''), (1, ''C7'')]"
  by (simp add: data_frame_def first_seen_def column_def float_column_def set_column_def
        numeral_2_eq_2)

lemma scenario_run:
  "augment_data demo_libs counter_rng (demo_surroundings ''1'') scenario_config None 2 None
     False ''power'' demo_world
   = (Inr (replicate 4 \<lparr> nrows = 1, ncols = 1, cells = [[0]] \<rparr>,
           map (\<lambda>(n, c). [(''overdrive.gain_db'', Val (PyFloat 20)),
                       (''reverb.reverberance'', Val (PyFloat 50)),
                       (''group'', Val (PyInt n)), (''model'', Val (PyStr ''strat'')),
                       (''chords'', Val (PyStr c))])
             [(0, ''Am''), (1, ''Am''), (0, ''C7''), (1, ''C7'')]),
      demo_world)"
proof -
  have w: "demo_world \<lparr> gen := gen demo_world \<rparr> = demo_world" by simp
  have g: "glob_wav (demo_surroundings ''1'') = [''guitar/strat/Am.wav'', ''guitar/strat/C7.wav'']"
    by (simp add: demo_surroundings_def)
  have a: "assemble demo_libs counter_rng (demo_surroundings ''1'') scenario_config
             (cfg_effects scenario_config) None
             [''guitar/strat/Am.wav'', ''guitar/strat/C7.wav''] 2 False ''power'' demo_world
           = (Inr (replicate 4 \<lparr> nrows = 1, ncols = 1, cells = [[0]] \<rparr>,
           map (\<lambda>(n, c). [(''overdrive.gain_db'', Val (PyFloat 20)),
                       (''reverb.reverberance'', Val (PyFloat 50)),
                       (''group'', Val (PyInt n)), (''model'', Val (PyStr ''strat'')),
                       (''chords'', Val (PyStr c))])
             [(0, ''Am''), (1, ''Am''), (0, ''C7''), (1, ''C7'')]),
      demo_world)"
    unfolding assemble_def scenario_fields option.case scenario_pairs prod.case sum.case Let_def
    using scenario_pad scenario_meta scenario_frame
    by simp
  show ?thesis
    unfolding augment_data_def select_files_def option.case prod.case sum.case scenario_chain
      confirm_write_def scenario_fields w g
    by (rule a)
qed

theorem augment_data_rows_witness:
  "\<exists>X_train Y_train w'.
     augment_data demo_libs counter_rng (demo_surroundings ''1'') scenario_config None 2 None
       False ''power'' demo_world = (Inr (X_train, Y_train), w') \<and>
     length X_train = 4 \<and> length Y_train = 4 \<and>
     map (\<lambda>row. dict_get row ''group'') Y_train
       = [Val (PyInt 0), Val (PyInt 1), Val (PyInt 0), Val (PyInt 1)] \<and>
     map (\<lambda>row. dict_get row ''model'') Y_train
       = [Val (PyStr ''strat''), Val (PyStr ''strat''), Val (PyStr ''strat''), Val (PyStr ''strat'')] \<and>
     map (\<lambda>row. dict_get row ''chords'') Y_train
       = [Val (PyStr ''Am''), Val (PyStr ''Am''), Val (PyStr ''C7''), Val (PyStr ''C7'')]"
proof -
  let ?X = "replicate 4 \<lparr> nrows = 1, ncols = 1, cells = [[0]] \<rparr>"
  let ?Y = "map (\<lambda>(n, c). [(''overdrive.gain_db'', Val (PyFloat 20)),
                       (''reverb.reverberance'', Val (PyFloat 50)),
                       (''group'', Val (PyInt n)), (''model'', Val (PyStr ''strat'')),
                       (''chords'', Val (PyStr c))])
             [(0, ''Am''), (1, ''Am''), (0, ''C7''), (1, ''C7'')]"
  from augment_data_rows[OF scenario_run] obtain files where
    f: "(None :: nat option) = None \<longrightarrow> files = glob_wav (demo_surroundings ''1'')" and
    lx: "length ?X = length files * 2" and ly: "length ?Y = length files * 2"
    by (elim exE conjE) (rule that, assumption+)
  from f have "length files = 2" by (simp add: demo_surroundings_def)
  with lx ly have l: "length ?X = 4" "length ?Y = 4" by simp_all
  have g: "map (\<lambda>row. dict_get row ''group'') ?Y
       = [Val (PyInt 0), Val (PyInt 1), Val (PyInt 0), Val (PyInt 1)]"
    by (simp add: dict_get_def)
  have m: "map (\<lambda>row. dict_get row ''model'') ?Y
       = [Val (PyStr ''strat''), Val (PyStr ''strat''), Val (PyStr ''strat''), Val (PyStr ''strat'')]"
    by (simp add: dict_get_def)
  have c: "map (\<lambda>row. dict_get row ''chords'') ?Y
       = [Val (PyStr ''Am''), Val (PyStr ''Am''), Val (PyStr ''C7''), Val (PyStr ''C7'')]"
    by (simp add: dict_get_def)
  note full = conjI[OF scenario_run conjI[OF l(1) conjI[OF l(2) conjI[OF g conjI[OF m c]]]]]
  show ?thesis by (intro exI) (rule full)
qed

end
